theory Spec2Isabelle
  imports Complex_Main
begin

section \<open>The two-slot snapshot window of \<^verbatim>\<open>CryptoAnalyzer\<close> (app.py)\<close>

text \<open>
  The class \<^verbatim>\<open>CryptoAnalyzer\<close> keeps the two most recent telemetry snapshots
  (\<^verbatim>\<open>current_data\<close>, \<^verbatim>\<open>previous_data\<close>) and derives a trading signal with a
  confidence level from them. This theory embeds its methods as HOL functions.

  Modelling conventions.
  \<^item> A snapshot dictionary is a record; Python's unbounded \<^verbatim>\<open>int\<close> is \<open>int\<close>.
  \<^item> In the methods Python's \<^verbatim>\<open>float\<close> is modelled by \<open>real\<close>: true division and the
    comparisons with the literals \<^verbatim>\<open>2.5\<close>, \<^verbatim>\<open>0.7\<close>, \<^verbatim>\<open>0.95\<close>, ... are exact. The
    arithmetic of lines 117 and 68-69 is modelled a second time with the rounding,
    underflow and overflow of IEEE doubles (\<open>truediv_double\<close>, \<open>float_mul\<close>), for the
    properties that depend on them.
  \<^item> A slot holding \<^verbatim>\<open>None\<close> is \<open>None\<close>; a slot holding a snapshot dictionary is
    \<open>Some\<close> of the record (a non-empty dictionary is truthy).
  \<^item> An exception is a value \<open>Inl e\<close> of a sum type; \<^verbatim>\<open>try\<close>/\<^verbatim>\<open>except\<close> is the
    combinator \<open>try_except\<close>.
  \<^item> The file on disk, the messages shown by \<^verbatim>\<open>st.error\<close> and the number of HTTP requests
    issued are the fields of an explicit \<open>world\<close> that the effectful methods thread through.
\<close>

subsection \<open>Data model\<close>

text \<open>The dictionary built by \<^verbatim>\<open>fetch_node_data\<close> (lines 71-78).\<close>

record snapshot =
  timestamp :: string
  total_nodes :: int
  active_nodes :: int
  tor_nodes :: int
  tor_percentage :: real
  active_ratio :: real

text \<open>The mutable attributes of a \<^verbatim>\<open>CryptoAnalyzer\<close> object.\<close>

record analyzer =
  current_data :: "snapshot option"
  previous_data :: "snapshot option"

datatype py_error =
    ZeroDivisionError
  | OSError
  | JSONDecodeError
  | AttributeError
  | KeyError
  | RequestException
  | OverflowError

text \<open>
  The \<^verbatim>\<open>reasoning\<close> entry is an f-string; the model keeps the template that was chosen
  and the numbers embedded in it, not the rendered text:
  \<^item> \<open>Need_Two_Data_Points\<close>: "Need at least 2 data points for comparison"
  \<^item> \<open>Large_Tor_Increase\<close>, \<open>Large_Tor_Decrease\<close>: "Large Tor increase/decrease
    (tor_change nodes, percentage_change%) with high confidence factors"
  \<^item> \<open>Moderate_Tor_Increase\<close>, \<open>Moderate_Tor_Decrease\<close>: "Moderate Tor increase/decrease
    (tor_change nodes, percentage_change%) with medium confidence"
  \<^item> \<open>Small_Tor_Increase\<close>, \<open>Small_Tor_Decrease\<close>: "Small Tor increase/decrease
    (tor_change nodes) - low confidence signal"
  \<^item> \<open>Minimal_Tor_Change\<close>: "Minimal Tor change (tor_change nodes) - no clear signal"
\<close>

datatype reasoning_text =
    Need_Two_Data_Points
  | Large_Tor_Increase int real
  | Large_Tor_Decrease int real
  | Moderate_Tor_Increase int real
  | Moderate_Tor_Decrease int real
  | Small_Tor_Increase int
  | Small_Tor_Decrease int
  | Minimal_Tor_Change int

text \<open>
  The dictionary returned by \<^verbatim>\<open>calculate_high_confidence_signal\<close>. The keys
  \<^verbatim>\<open>confidence_factors\<close>, \<^verbatim>\<open>total_nodes\<close> and \<^verbatim>\<open>active_ratio\<close> exist only in the
  dictionary of the populated branch (lines 204-216), so they are optional here.
\<close>

record signal_result =
  current_tor :: int
  previous_tor :: int
  tor_change :: int
  percentage_change :: real
  signal :: string
  confidence :: string
  bias :: string
  reasoning :: reasoning_text
  confidence_factors :: "string list option"
  result_total_nodes :: "int option"
  result_active_ratio :: "real option"

text \<open>The dictionary returned by \<^verbatim>\<open>calculate_network_signal\<close>.\<close>

record network_result =
  current_total :: int
  previous_total :: int
  total_change :: int
  network_signal :: string

subsection \<open>Python primitives\<close>

text \<open>
  True division \<^verbatim>\<open>a / b\<close> of two integers with the exact quotient: raises on a zero
  divisor. The correctly rounded quotient, with its overflow error, is \<open>truediv_double\<close>
  below.
\<close>

definition truediv :: "int \<Rightarrow> int \<Rightarrow> py_error + real" where
  "truediv a b = (if b = 0 then Inl ZeroDivisionError else Inr (real_of_int a / real_of_int b))"

text \<open>\<^verbatim>\<open>s.startswith(p)\<close> for one prefix, and for a tuple of prefixes.\<close>

fun startswith1 :: "string \<Rightarrow> string \<Rightarrow> bool" where
  "startswith1 s [] = True"
| "startswith1 [] (c # p) = False"
| "startswith1 (d # s) (c # p) = (d = c \<and> startswith1 s p)"

fun startswith :: "string \<Rightarrow> string list \<Rightarrow> bool" where
  "startswith s [] = False"
| "startswith s (p # ps) = (startswith1 s p \<or> startswith s ps)"

text \<open>\<^verbatim>\<open>sub in s\<close> on strings.\<close>

fun contains :: "string \<Rightarrow> string \<Rightarrow> bool" where
  "contains sub [] = (sub = [])"
| "contains sub (c # s) = (startswith1 (c # s) sub \<or> contains sub s)"

text \<open>\<^verbatim>\<open>sum(1 for x in xs if P(x))\<close>.\<close>

definition count_if :: "('a \<Rightarrow> bool) \<Rightarrow> 'a list \<Rightarrow> nat" where
  "count_if P xs = length (filter P xs)"

text \<open>
  \<^verbatim>\<open>try: body except ...: handler\<close> where the handler catches every exception the
  model has. A stateful body returns its outcome together with the world it left behind,
  and the handler continues from that world.
\<close>

definition try_except :: "(py_error + 'a) \<times> 'w \<Rightarrow> (py_error \<Rightarrow> 'w \<Rightarrow> (py_error + 'a) \<times> 'w)
    \<Rightarrow> (py_error + 'a) \<times> 'w" where
  "try_except body handler =
     (case body of (Inl e, w) \<Rightarrow> handler e w | (Inr v, w) \<Rightarrow> (Inr v, w))"

subsection \<open>\<^verbatim>\<open>calculate_high_confidence_signal\<close> (lines 96-216)\<close>

text \<open>Line 117: the percentage change, guarded by \<^verbatim>\<open>previous_tor > 0\<close>.\<close>

definition percentage_change_of :: "int \<Rightarrow> int \<Rightarrow> py_error + real" where
  "percentage_change_of change prev_tor =
     (if prev_tor > 0
      then (case truediv change prev_tor of Inl e \<Rightarrow> Inl e | Inr q \<Rightarrow> Inr (q * 100))
      else Inr 0)"

text \<open>Lines 122-128, factor 1: absolute Tor change magnitude.\<close>

definition tor_change_factor :: "int \<Rightarrow> string" where
  "tor_change_factor change =
     (if \<bar>change\<bar> > 50 then ''LARGE_TOR_CHANGE''
      else if \<bar>change\<bar> > 25 then ''MEDIUM_TOR_CHANGE''
      else ''SMALL_TOR_CHANGE'')"

text \<open>Lines 130-136, factor 2: percentage change magnitude.\<close>

definition percentage_factor :: "real \<Rightarrow> string" where
  "percentage_factor pct =
     (if \<bar>pct\<bar> > 5 then ''LARGE_PERCENTAGE_CHANGE''
      else if \<bar>pct\<bar> > 5 / 2 then ''MEDIUM_PERCENTAGE_CHANGE''
      else ''SMALL_PERCENTAGE_CHANGE'')"

text \<open>Lines 138-144, factor 3: network size.\<close>

definition network_factor :: "int \<Rightarrow> string" where
  "network_factor cur_total =
     (if cur_total > 10000 then ''LARGE_NETWORK''
      else if cur_total > 8000 then ''MEDIUM_NETWORK''
      else ''SMALL_NETWORK'')"

text \<open>Lines 146-152, factor 4: active ratio health.\<close>

definition active_ratio_factor :: "real \<Rightarrow> string" where
  "active_ratio_factor ratio =
     (if 7 / 10 \<le> ratio \<and> ratio \<le> 9 / 10 then ''HEALTHY_ACTIVE_RATIO''
      else if 6 / 10 \<le> ratio \<and> ratio \<le> 95 / 100 then ''MODERATE_ACTIVE_RATIO''
      else ''POOR_ACTIVE_RATIO'')"

text \<open>Lines 155-158: the two counts over the list of tags.\<close>

definition high_confidence_count :: "string list \<Rightarrow> nat" where
  "high_confidence_count factors =
     count_if (\<lambda>factor. startswith factor [''LARGE'', ''HEALTHY'']) factors"

definition medium_confidence_count :: "string list \<Rightarrow> nat" where
  "medium_confidence_count factors =
     count_if (\<lambda>factor. startswith factor [''MEDIUM'', ''MODERATE'']) factors"

text \<open>Lines 160-165: the overall confidence.\<close>

definition overall_confidence :: "string list \<Rightarrow> string" where
  "overall_confidence factors =
     (if high_confidence_count factors \<ge> 3 then ''HIGH''
      else if high_confidence_count factors + medium_confidence_count factors \<ge> 3 then ''MEDIUM''
      else ''LOW'')"

text \<open>Lines 169-202: the \<^verbatim>\<open>if\<close>/\<^verbatim>\<open>elif\<close> chain giving signal, bias and reasoning.\<close>

definition decide_signal :: "int \<Rightarrow> real \<Rightarrow> string \<Rightarrow> string \<times> string \<times> reasoning_text" where
  "decide_signal change pct conf =
     (if change > 50 \<and> pct > 5 \<and> conf = ''HIGH''
        then (''STRONG SELL'', ''HIGHLY BEARISH'', Large_Tor_Increase change pct)
      else if change < - 50 \<and> pct < - 5 \<and> conf = ''HIGH''
        then (''STRONG BUY'', ''HIGHLY BULLISH'', Large_Tor_Decrease change pct)
      else if change > 25 \<and> pct > 5 / 2 \<and> conf \<in> set [''MEDIUM'', ''HIGH'']
        then (''SELL'', ''BEARISH'', Moderate_Tor_Increase change pct)
      else if change < - 25 \<and> pct < - (5 / 2) \<and> conf \<in> set [''MEDIUM'', ''HIGH'']
        then (''BUY'', ''BULLISH'', Moderate_Tor_Decrease change pct)
      else if change > 10
        then (''SLIGHT SELL'', ''SLIGHTLY BEARISH'', Small_Tor_Increase change)
      else if change < - 10
        then (''SLIGHT BUY'', ''SLIGHTLY BULLISH'', Small_Tor_Decrease change)
      else (''HOLD'', ''NEUTRAL'', Minimal_Tor_Change change))"

text \<open>Lines 110-216: the branch taken when both slots hold a snapshot.\<close>

definition signal_of_pair :: "snapshot \<Rightarrow> snapshot \<Rightarrow> py_error + signal_result" where
  "signal_of_pair cur prev =
     (let cur_tor = tor_nodes cur;
          prev_tor = tor_nodes prev;
          cur_total = total_nodes cur;
          ratio = active_ratio cur;
          change = cur_tor - prev_tor
      in case percentage_change_of change prev_tor of
           Inl e \<Rightarrow> Inl e
         | Inr pct \<Rightarrow>
             (let factors = [tor_change_factor change, percentage_factor pct,
                             network_factor cur_total, active_ratio_factor ratio];
                  conf = overall_confidence factors;
                  (sig, bi, why) = decide_signal change pct conf
              in Inr \<lparr>current_tor = cur_tor, previous_tor = prev_tor, tor_change = change,
                      percentage_change = pct, signal = sig, confidence = conf, bias = bi,
                      reasoning = why, confidence_factors = Some factors,
                      result_total_nodes = Some cur_total, result_active_ratio = Some ratio\<rparr>))"

definition calculate_high_confidence_signal :: "analyzer \<Rightarrow> py_error + signal_result" where
  "calculate_high_confidence_signal self =
     (case (current_data self, previous_data self) of
        (Some cur, Some prev) \<Rightarrow> signal_of_pair cur prev
      | (cur, prev) \<Rightarrow>
          Inr \<lparr>current_tor = (case cur of Some c \<Rightarrow> tor_nodes c | None \<Rightarrow> 0),
               previous_tor = (case prev of Some p \<Rightarrow> tor_nodes p | None \<Rightarrow> 0),
               tor_change = 0, percentage_change = 0,
               signal = ''INSUFFICIENT_DATA'', confidence = ''LOW'', bias = ''NEED MORE DATA'',
               reasoning = Need_Two_Data_Points, confidence_factors = None,
               result_total_nodes = None, result_active_ratio = None\<rparr>)"

subsection \<open>\<^verbatim>\<open>calculate_network_signal\<close> (lines 218-247)\<close>

definition calculate_network_signal :: "analyzer \<Rightarrow> network_result" where
  "calculate_network_signal self =
     (case (current_data self, previous_data self) of
        (Some cur, Some prev) \<Rightarrow>
          (let cur_total = total_nodes cur;
               prev_total = total_nodes prev;
               change = cur_total - prev_total
           in \<lparr>current_total = cur_total, previous_total = prev_total, total_change = change,
               network_signal =
                 (if change > 100 then ''NETWORK STRONG GROWTH''
                  else if change > 50 then ''NETWORK GROWING''
                  else if change > 0 then ''NETWORK STABLE''
                  else ''NETWORK SHRINKING'')\<rparr>)
      | (cur, prev) \<Rightarrow>
          \<lparr>current_total = (case cur of Some c \<Rightarrow> total_nodes c | None \<Rightarrow> 0),
           previous_total = (case prev of Some p \<Rightarrow> total_nodes p | None \<Rightarrow> 0),
           total_change = 0, network_signal = ''INSUFFICIENT_DATA''\<rparr>)"

subsection \<open>The world outside the object\<close>

text \<open>
  The JSON object written by \<^verbatim>\<open>save_node_data\<close> (lines 36-40). A key that is absent
  and a key holding \<^verbatim>\<open>null\<close> both read back as \<^verbatim>\<open>None\<close> through \<^verbatim>\<open>data.get\<close>.
\<close>

record stored_document =
  stored_current_data :: "snapshot option"
  stored_previous_data :: "snapshot option"
  last_updated :: string

text \<open>
  What \<^verbatim>\<open>load_node_data\<close> can find at the path \<^verbatim>\<open>self.data_file\<close>:
  \<^item> \<open>File_Absent\<close>: \<^verbatim>\<open>os.path.exists\<close> is false;
  \<^item> \<open>File_Unreadable\<close>: the file exists and \<^verbatim>\<open>open(..., 'r')\<close> raises;
  \<^item> \<open>File_Malformed\<close>: the content is not JSON text (empty or cut short included),
    \<^verbatim>\<open>json.load\<close> raises;
  \<^item> \<open>File_Not_Object\<close>: the content is JSON but not an object, \<^verbatim>\<open>data.get\<close> raises;
  \<^item> \<open>File_Document\<close>: the content is a JSON object.
\<close>

datatype file_state =
    File_Absent
  | File_Unreadable
  | File_Malformed
  | File_Not_Object
  | File_Document stored_document

text \<open>The messages \<^verbatim>\<open>st.error\<close> shows, each with the exception it reports.\<close>

datatype ui_message =
    Error_saving_data py_error
  | Error_fetching_node_data py_error

text \<open>
  \<open>requests_made\<close> counts the calls of \<^verbatim>\<open>requests.get\<close> (line 49); it is a ghost
  counter that the program itself never reads.
\<close>

record world =
  data_file :: file_state
  ui_errors :: "ui_message list"
  requests_made :: nat

text \<open>
  How the write of lines 41-42 ends: \<^verbatim>\<open>open(self.data_file, 'w')\<close> raises before the file
  is touched (\<open>Open_Fails\<close>); the file is opened, which truncates it, and the write raises
  before the closing brace of the object is on disk (\<open>Write_Fails\<close>); or the whole text is
  written (\<open>Write_Succeeds\<close>).
\<close>

datatype storage_outcome = Write_Succeeds | Open_Fails | Write_Fails

text \<open>
  One entry of \<^verbatim>\<open>data['nodes'].items()\<close>, seen through the three observations the loop
  of lines 59-66 makes of it: \<^verbatim>\<open>str(node_address)\<close>, whether \<^verbatim>\<open>node_info\<close> is a non-empty
  list, and \<^verbatim>\<open>str(node_info)\<close>.
\<close>

record node_entry =
  address_str :: string
  info_is_nonempty_list :: bool
  info_str :: string

record payload =
  payload_total_nodes :: int
  payload_nodes :: "node_entry list"

text \<open>
  How the request of lines 49-53 ends: the request or its status check raises
  (\<open>Request_Fails\<close>), the body is not JSON (\<open>Body_Not_Json\<close>), a key is missing
  (\<open>Key_Missing\<close>), or the payload is read.
\<close>

datatype http_outcome = Request_Fails | Body_Not_Json | Key_Missing | Payload payload

text \<open>
  Everything one call of \<^verbatim>\<open>update_node_data\<close> receives from outside: the outcome of
  the request, the two readings of \<^verbatim>\<open>datetime.now().isoformat()\<close>, and the outcome of the
  write.
\<close>

record environment =
  http :: http_outcome
  fetch_time :: string
  storage :: storage_outcome
  save_time :: string

subsection \<open>\<^verbatim>\<open>load_node_data\<close> (lines 18-31)\<close>

definition empty_window :: analyzer where
  "empty_window = \<lparr>current_data = None, previous_data = None\<rparr>"

definition load_body :: "analyzer \<times> world \<Rightarrow> (py_error + unit) \<times> (analyzer \<times> world)" where
  "load_body = (\<lambda>(self, w).
     case data_file w of
       File_Absent \<Rightarrow> (Inr (), (self\<lparr>current_data := None, previous_data := None\<rparr>, w))
     | File_Unreadable \<Rightarrow> (Inl OSError, (self, w))
     | File_Malformed \<Rightarrow> (Inl JSONDecodeError, (self, w))
     | File_Not_Object \<Rightarrow> (Inl AttributeError, (self, w))
     | File_Document data \<Rightarrow>
         (Inr (), (self\<lparr>current_data := stored_current_data data,
                         previous_data := stored_previous_data data\<rparr>, w)))"

definition load_node_data :: "analyzer \<times> world \<Rightarrow> (py_error + unit) \<times> (analyzer \<times> world)" where
  "load_node_data st =
     try_except (load_body st)
       (\<lambda>e (self, w). (Inr (), (self\<lparr>current_data := None, previous_data := None\<rparr>, w)))"

subsection \<open>\<^verbatim>\<open>save_node_data\<close> (lines 33-44)\<close>

definition save_body :: "storage_outcome \<Rightarrow> string \<Rightarrow> analyzer \<times> world
    \<Rightarrow> (py_error + unit) \<times> (analyzer \<times> world)" where
  "save_body outcome now = (\<lambda>(self, w).
     let data = \<lparr>stored_current_data = current_data self,
                 stored_previous_data = previous_data self,
                 last_updated = now\<rparr>
     in case outcome of
          Open_Fails \<Rightarrow> (Inl OSError, (self, w))
        | Write_Fails \<Rightarrow> (Inl OSError, (self, w\<lparr>data_file := File_Malformed\<rparr>))
        | Write_Succeeds \<Rightarrow> (Inr (), (self, w\<lparr>data_file := File_Document data\<rparr>)))"

definition save_node_data :: "storage_outcome \<Rightarrow> string \<Rightarrow> analyzer \<times> world
    \<Rightarrow> (py_error + unit) \<times> (analyzer \<times> world)" where
  "save_node_data outcome now st =
     try_except (save_body outcome now st)
       (\<lambda>e (self, w). (Inr (), (self, w\<lparr>ui_errors := ui_errors w @ [Error_saving_data e]\<rparr>)))"

subsection \<open>\<^verbatim>\<open>fetch_node_data\<close> (lines 46-81)\<close>

text \<open>The loop of lines 56-66, with the two counters as accumulator.\<close>

fun count_nodes :: "node_entry list \<Rightarrow> int \<times> int \<Rightarrow> int \<times> int" where
  "count_nodes [] (active, tor) = (active, tor)"
| "count_nodes (n # ns) (active, tor) =
     count_nodes ns
       (if info_is_nonempty_list n then active + 1 else active,
        if contains ''.onion'' (address_str n) \<or> contains ''.onion'' (info_str n)
        then tor + 1 else tor)"

text \<open>Lines 68-78: the two guarded divisions and the dictionary that is returned.\<close>

definition build_snapshot :: "string \<Rightarrow> int \<Rightarrow> int \<Rightarrow> int \<Rightarrow> py_error + snapshot" where
  "build_snapshot now total_count active_count tor_count =
     (case (if total_count > 0
            then (case truediv tor_count total_count of Inl e \<Rightarrow> Inl e | Inr q \<Rightarrow> Inr (q * 100))
            else Inr 0) of
        Inl e \<Rightarrow> Inl e
      | Inr tor_pct \<Rightarrow>
          (case (if total_count > 0 then truediv active_count total_count else Inr 0) of
             Inl e \<Rightarrow> Inl e
           | Inr ratio \<Rightarrow>
               Inr \<lparr>timestamp = now, total_nodes = total_count, active_nodes = active_count,
                    tor_nodes = tor_count, tor_percentage = tor_pct, active_ratio = ratio\<rparr>))"

definition fetch_body :: "http_outcome \<Rightarrow> string \<Rightarrow> analyzer \<times> world
    \<Rightarrow> (py_error + snapshot option) \<times> (analyzer \<times> world)" where
  "fetch_body response now = (\<lambda>(self, w).
     let w1 = w\<lparr>requests_made := requests_made w + 1\<rparr>
     in case response of
          Request_Fails \<Rightarrow> (Inl RequestException, (self, w1))
        | Body_Not_Json \<Rightarrow> (Inl JSONDecodeError, (self, w1))
        | Key_Missing \<Rightarrow> (Inl KeyError, (self, w1))
        | Payload data \<Rightarrow>
            (let total_count = payload_total_nodes data;
                 (active_count, tor_count) = count_nodes (payload_nodes data) (0, 0)
             in case build_snapshot now total_count active_count tor_count of
                  Inl e \<Rightarrow> (Inl e, (self, w1))
                | Inr snap \<Rightarrow> (Inr (Some snap), (self, w1))))"

definition fetch_node_data :: "http_outcome \<Rightarrow> string \<Rightarrow> analyzer \<times> world
    \<Rightarrow> (py_error + snapshot option) \<times> (analyzer \<times> world)" where
  "fetch_node_data response now st =
     try_except (fetch_body response now st)
       (\<lambda>e (self, w).
          (Inr None, (self, w\<lparr>ui_errors := ui_errors w @ [Error_fetching_node_data e]\<rparr>)))"

subsection \<open>\<^verbatim>\<open>update_node_data\<close> (lines 83-94)\<close>

definition update_node_data :: "environment \<Rightarrow> analyzer \<times> world
    \<Rightarrow> (py_error + bool) \<times> (analyzer \<times> world)" where
  "update_node_data env st =
     (case fetch_node_data (http env) (fetch_time env) st of
        (Inl e, st1) \<Rightarrow> (Inl e, st1)
      | (Inr None, st1) \<Rightarrow> (Inr False, st1)
      | (Inr (Some new_data), (self, w)) \<Rightarrow>
          (let self1 = self\<lparr>previous_data := current_data self\<rparr>;
               self2 = self1\<lparr>current_data := Some new_data\<rparr>
           in case save_node_data (storage env) (save_time env) (self2, w) of
                (Inl e, st2) \<Rightarrow> (Inl e, st2)
              | (Inr u, st2) \<Rightarrow> (Inr True, st2)))"


section \<open>Lines 117 and 68-69 in double arithmetic\<close>

text \<open>
  A finite double is a real of the form \<open>m * 2 ^ (e - 52)\<close> with an integer \<open>m\<close> of at
  most 53 bits and \<open>- 1022 \<le> e \<le> 1023\<close>. Rounding to the nearest double, ties to the even
  significand: the exponent is that of the binade of \<open>x\<close> (not below the subnormal
  exponent \<open>- 1022\<close>), the unit in the last place is \<open>2 ^ (e - 52)\<close>, and the quotient by
  it is rounded to an integer. The exponent is not bounded above here; a result of
  magnitude \<open>2 ^ 1024\<close> or more is an overflow, which the operations below turn into an
  exception or an infinity. The sign of a zero is not kept (\<^verbatim>\<open>-0.0 == 0.0\<close> in every
  comparison).
\<close>

definition round_half_even :: "real \<Rightarrow> int" where
  "round_half_even y =
     (let f = \<lfloor>y\<rfloor>; d = y - of_int f
      in if d < 1 / 2 then f else if d > 1 / 2 then f + 1 else if even f then f else f + 1)"

definition double_exponent :: "real \<Rightarrow> int" where
  "double_exponent x = max \<lfloor>log 2 \<bar>x\<bar>\<rfloor> (- 1022)"

definition double_ulp :: "real \<Rightarrow> real" where
  "double_ulp x = 2 powr real_of_int (double_exponent x - 52)"

definition round_to_double :: "real \<Rightarrow> real" where
  "round_to_double x =
     (if x = 0 then 0 else real_of_int (round_half_even (x / double_ulp x)) * double_ulp x)"

text \<open>A float: a finite double or an infinity (no operation here produces a NaN).\<close>

datatype py_float = Finite real | Pos_Infinity | Neg_Infinity

text \<open>
  \<^verbatim>\<open>a / b\<close> on two integers: CPython returns the correctly rounded quotient, raises
  \<^verbatim>\<open>ZeroDivisionError\<close> on a zero divisor and \<^verbatim>\<open>OverflowError\<close> ("integer division
  result too large for a float") when the rounded quotient is not a finite double.
\<close>

definition truediv_double :: "int \<Rightarrow> int \<Rightarrow> py_error + real" where
  "truediv_double a b =
     (if b = 0 then Inl ZeroDivisionError
      else let q = round_to_double (real_of_int a / real_of_int b)
           in if \<bar>q\<bar> \<ge> 2 ^ 1024 then Inl OverflowError else Inr q)"

text \<open>\<^verbatim>\<open>x * y\<close> on floats: the rounded product; an overflow gives an infinity, no exception.\<close>

definition float_mul :: "real \<Rightarrow> real \<Rightarrow> py_float" where
  "float_mul x y =
     (let p = round_to_double (x * y)
      in if p \<ge> 2 ^ 1024 then Pos_Infinity
         else if p \<le> - (2 ^ 1024) then Neg_Infinity
         else Finite p)"

text \<open>Line 117, and lines 68 and 69 of \<^verbatim>\<open>fetch_node_data\<close>.\<close>

definition percentage_change_double :: "int \<Rightarrow> int \<Rightarrow> py_error + py_float" where
  "percentage_change_double change prev_tor =
     (if prev_tor > 0
      then (case truediv_double change prev_tor of
              Inl e \<Rightarrow> Inl e
            | Inr q \<Rightarrow> Inr (float_mul q 100))
      else Inr (Finite 0))"

definition tor_percentage_double :: "int \<Rightarrow> int \<Rightarrow> py_error + py_float" where
  "tor_percentage_double tor_count total_count =
     (if total_count > 0
      then (case truediv_double tor_count total_count of
              Inl e \<Rightarrow> Inl e
            | Inr q \<Rightarrow> Inr (float_mul q 100))
      else Inr (Finite 0))"

definition active_ratio_double :: "int \<Rightarrow> int \<Rightarrow> py_error + real" where
  "active_ratio_double active_count total_count =
     (if total_count > 0 then truediv_double active_count total_count else Inr 0)"


section \<open>Definitions used to state the properties\<close>

text \<open>
  The values lines 116-117 compute from a pair of snapshots, as pure functions: the signed
  change, the percentage change (a total function, \<open>0\<close> when the previous count is not
  positive) and the list of the four tags.
\<close>

definition percentage_of :: "int \<Rightarrow> int \<Rightarrow> real" where
  "percentage_of change prev_tor =
     (if prev_tor > 0 then real_of_int change / real_of_int prev_tor * 100 else 0)"

definition pair_change :: "snapshot \<Rightarrow> snapshot \<Rightarrow> int" where
  "pair_change cur prev = tor_nodes cur - tor_nodes prev"

definition pair_percentage :: "snapshot \<Rightarrow> snapshot \<Rightarrow> real" where
  "pair_percentage cur prev = percentage_of (pair_change cur prev) (tor_nodes prev)"

definition pair_factors :: "snapshot \<Rightarrow> snapshot \<Rightarrow> string list" where
  "pair_factors cur prev =
     [tor_change_factor (pair_change cur prev), percentage_factor (pair_percentage cur prev),
      network_factor (total_nodes cur), active_ratio_factor (active_ratio cur)]"








text \<open>
  The sign of a float: \<open>1\<close>, \<open>- 1\<close> or \<open>0\<close>.
\<close>

fun float_sign :: "py_float \<Rightarrow> int" where
  "float_sign (Finite x) = (if x > 0 then 1 else if x < 0 then - 1 else 0)"
| "float_sign Pos_Infinity = 1"
| "float_sign Neg_Infinity = - 1"


section \<open>Concrete windows, payloads and worlds\<close>

text \<open>
  Scenario A of the specification (previous 1000 Tor nodes, current 1060, 9100 nodes,
  active ratio 0.8), scenario B (current 970), scenario C (no previous snapshot),
  scenario D (total 9000 twice), and a window whose previous snapshot has no Tor node.
\<close>

definition snapshot_prev_a :: snapshot where
  "snapshot_prev_a = \<lparr>timestamp = ''2024-05-01T10:00:00'', total_nodes = 9000,
     active_nodes = 7200, tor_nodes = 1000, tor_percentage = 100 / 9, active_ratio = 8 / 10\<rparr>"

definition snapshot_cur_a :: snapshot where
  "snapshot_cur_a = \<lparr>timestamp = ''2024-05-01T11:00:00'', total_nodes = 9100,
     active_nodes = 7280, tor_nodes = 1060, tor_percentage = 1060 / 91, active_ratio = 8 / 10\<rparr>"


definition snapshot_cur_d :: snapshot where
  "snapshot_cur_d = \<lparr>timestamp = ''2024-05-01T11:00:00'', total_nodes = 9000,
     active_nodes = 7200, tor_nodes = 1000, tor_percentage = 100 / 9, active_ratio = 8 / 10\<rparr>"

definition snapshot_no_tor :: snapshot where
  "snapshot_no_tor = \<lparr>timestamp = ''2024-05-01T09:00:00'', total_nodes = 9000,
     active_nodes = 7200, tor_nodes = 0, tor_percentage = 0, active_ratio = 8 / 10\<rparr>"

definition scenario_a :: analyzer where
  "scenario_a = \<lparr>current_data = Some snapshot_cur_a, previous_data = Some snapshot_prev_a\<rparr>"


definition scenario_c :: analyzer where
  "scenario_c = \<lparr>current_data = Some snapshot_cur_a, previous_data = None\<rparr>"

definition scenario_d :: analyzer where
  "scenario_d = \<lparr>current_data = Some snapshot_cur_d, previous_data = Some snapshot_prev_a\<rparr>"

definition scenario_no_tor :: analyzer where
  "scenario_no_tor = \<lparr>current_data = Some snapshot_cur_a, previous_data = Some snapshot_no_tor\<rparr>"

text \<open>
  Two snapshots with \<open>10 ^ 330\<close> and \<open>10 ^ 330 + 1\<close> Tor nodes.
\<close>

definition snapshot_huge_prev :: snapshot where
  "snapshot_huge_prev = \<lparr>timestamp = ''2024-05-01T10:00:00'', total_nodes = 2 * 10 ^ 330,
     active_nodes = 10 ^ 330, tor_nodes = 10 ^ 330, tor_percentage = 50, active_ratio = 1 / 2\<rparr>"

definition snapshot_huge_cur :: snapshot where
  "snapshot_huge_cur = \<lparr>timestamp = ''2024-05-01T11:00:00'', total_nodes = 2 * 10 ^ 330,
     active_nodes = 10 ^ 330, tor_nodes = 10 ^ 330 + 1, tor_percentage = 50,
     active_ratio = 1 / 2\<rparr>"

text \<open>
  A payload of three nodes (two answering, one of them an onion address), a payload that
  reports \<^verbatim>\<open>total_nodes = 0\<close>, the snapshot \<^verbatim>\<open>fetch_node_data\<close> builds from the first, a
  stored document, two worlds and three environments.
\<close>

definition payload_a :: payload where
  "payload_a = \<lparr>payload_total_nodes = 3, payload_nodes =
     [\<lparr>address_str = ''203.0.113.5:8333'', info_is_nonempty_list = True,
        info_str = ''[70016, 1]''\<rparr>,
      \<lparr>address_str = ''abcdefgh.onion:8333'', info_is_nonempty_list = True,
        info_str = ''[70016, 1]''\<rparr>,
      \<lparr>address_str = ''198.51.100.7:8333'', info_is_nonempty_list = False,
        info_str = ''None''\<rparr>]\<rparr>"

definition payload_zero :: payload where
  "payload_zero = \<lparr>payload_total_nodes = 0, payload_nodes =
     [\<lparr>address_str = ''abcdefgh.onion:8333'', info_is_nonempty_list = True,
        info_str = ''[70016, 1]''\<rparr>]\<rparr>"

definition snapshot_new :: snapshot where
  "snapshot_new = \<lparr>timestamp = ''2024-05-01T12:00:00'', total_nodes = 3, active_nodes = 2,
     tor_nodes = 1, tor_percentage = 100 / 3, active_ratio = 2 / 3\<rparr>"

definition document_a :: stored_document where
  "document_a = \<lparr>stored_current_data = Some snapshot_cur_a,
     stored_previous_data = Some snapshot_prev_a, last_updated = ''2024-05-01T11:00:01''\<rparr>"

definition world_a :: world where
  "world_a = \<lparr>data_file = File_Document document_a, ui_errors = [], requests_made = 0\<rparr>"

definition world_broken :: world where
  "world_broken = \<lparr>data_file = File_Malformed, ui_errors = [], requests_made = 0\<rparr>"

definition env_ok :: environment where
  "env_ok = \<lparr>http = Payload payload_a, fetch_time = ''2024-05-01T12:00:00'',
     storage = Write_Succeeds, save_time = ''2024-05-01T12:00:01''\<rparr>"

definition env_disk_full :: environment where
  "env_disk_full = \<lparr>http = Payload payload_a, fetch_time = ''2024-05-01T12:00:00'',
     storage = Write_Fails, save_time = ''2024-05-01T12:00:01''\<rparr>"

definition env_offline :: environment where
  "env_offline = \<lparr>http = Request_Fails, fetch_time = ''2024-05-01T12:00:00'',
     storage = Write_Succeeds, save_time = ''2024-05-01T12:00:01''\<rparr>"


section \<open>The signal of a populated window\<close>

text \<open>
  The guarded division never raises, so the populated branch always returns a dictionary,
  whose entries are the functions above.
\<close>

lemma percentage_change_of_returns:
  "percentage_change_of change prev_tor = Inr (percentage_of change prev_tor)"
  by (simp add: percentage_change_of_def percentage_of_def truediv_def)

lemma signal_of_pair_returns:
  "\<exists>r. signal_of_pair cur prev = Inr r
     \<and> current_tor r = tor_nodes cur \<and> previous_tor r = tor_nodes prev
     \<and> tor_change r = pair_change cur prev
     \<and> percentage_change r = pair_percentage cur prev
     \<and> confidence_factors r = Some (pair_factors cur prev)
     \<and> confidence r = overall_confidence (pair_factors cur prev)
     \<and> (signal r, bias r, reasoning r) =
         decide_signal (pair_change cur prev) (pair_percentage cur prev)
           (overall_confidence (pair_factors cur prev))
     \<and> result_total_nodes r = Some (total_nodes cur)
     \<and> result_active_ratio r = Some (active_ratio cur)"
  by (simp add: signal_of_pair_def percentage_change_of_returns Let_def pair_change_def
      pair_percentage_def pair_factors_def split: prod.split)

lemma populated_signal:
  "current_data self = Some cur \<Longrightarrow> previous_data self = Some prev \<Longrightarrow>
     calculate_high_confidence_signal self = signal_of_pair cur prev"
  by (simp add: calculate_high_confidence_signal_def)









subsection \<open>The decision table\<close>







subsection \<open>The confidence factors\<close>












subsection \<open>A window with a missing slot\<close>

text \<open>
  Claim C3. When at least one of the two slots is missing,
  \<^verbatim>\<open>calculate_high_confidence_signal\<close> returns signal INSUFFICIENT_DATA, confidence LOW,
  bias "NEED MORE DATA", \<open>tor_change = 0\<close>, \<open>current_tor\<close> and \<open>previous_tor\<close> equal to
  the Tor count of the slot that exists and \<open>0\<close> for the one that does not; nothing else is
  computed: \<open>percentage_change\<close> is the constant \<open>0\<close>, the reasoning is a fixed sentence,
  and the dictionary has no tags, no \<open>total_nodes\<close> and no \<open>active_ratio\<close>.
\<close>

theorem insufficient_data_result:
  assumes "current_data self = None \<or> previous_data self = None"
  shows "calculate_high_confidence_signal self =
     Inr \<lparr>current_tor = (case current_data self of Some c \<Rightarrow> tor_nodes c | None \<Rightarrow> 0),
          previous_tor = (case previous_data self of Some p \<Rightarrow> tor_nodes p | None \<Rightarrow> 0),
          tor_change = 0, percentage_change = 0,
          signal = ''INSUFFICIENT_DATA'', confidence = ''LOW'', bias = ''NEED MORE DATA'',
          reasoning = Need_Two_Data_Points, confidence_factors = None,
          result_total_nodes = None, result_active_ratio = None\<rparr>"
  using assms
  by (auto simp: calculate_high_confidence_signal_def split: option.splits)

text \<open>
  Scenario C: the previous snapshot is missing.
\<close>

theorem insufficient_data_result_witness:
  "(current_data scenario_c = None \<or> previous_data scenario_c = None)
   \<and> calculate_high_confidence_signal scenario_c =
       Inr \<lparr>current_tor = 1060, previous_tor = 0, tor_change = 0, percentage_change = 0,
            signal = ''INSUFFICIENT_DATA'', confidence = ''LOW'', bias = ''NEED MORE DATA'',
            reasoning = Need_Two_Data_Points, confidence_factors = None,
            result_total_nodes = None, result_active_ratio = None\<rparr>"
proof -
  have h: "current_data scenario_c = None \<or> previous_data scenario_c = None"
    by (simp add: scenario_c_def)
  from insufficient_data_result [OF h] h show ?thesis
    by (simp add: scenario_c_def snapshot_cur_a_def)
qed


section \<open>Fetching, rotating and storing\<close>

lemma build_snapshot_returns:
  "build_snapshot now t a b =
     Inr \<lparr>timestamp = now, total_nodes = t, active_nodes = a, tor_nodes = b,
          tor_percentage = (if t > 0 then real_of_int b / real_of_int t * 100 else 0),
          active_ratio = (if t > 0 then real_of_int a / real_of_int t else 0)\<rparr>"
  by (simp add: build_snapshot_def truediv_def)

lemma fetch_payload:
  "fetch_node_data (Payload data) now (self, w) =
     (Inr (Some \<lparr>timestamp = now, total_nodes = payload_total_nodes data,
          active_nodes = fst (count_nodes (payload_nodes data) (0, 0)),
          tor_nodes = snd (count_nodes (payload_nodes data) (0, 0)),
          tor_percentage = (if payload_total_nodes data > 0
             then real_of_int (snd (count_nodes (payload_nodes data) (0, 0)))
                  / real_of_int (payload_total_nodes data) * 100 else 0),
          active_ratio = (if payload_total_nodes data > 0
             then real_of_int (fst (count_nodes (payload_nodes data) (0, 0)))
                  / real_of_int (payload_total_nodes data) else 0)\<rparr>),
      (self, w\<lparr>requests_made := requests_made w + 1\<rparr>))"
  by (simp add: fetch_node_data_def fetch_body_def try_except_def build_snapshot_returns
      Let_def split: prod.split)

lemma fetch_failure:
  "response \<in> {Request_Fails, Body_Not_Json, Key_Missing} \<Longrightarrow>
   \<exists>e. fetch_node_data response now (self, w) =
     (Inr None, (self, w\<lparr>requests_made := requests_made w + 1,
                         ui_errors := ui_errors w @ [Error_fetching_node_data e]\<rparr>))"
  by (auto simp: fetch_node_data_def fetch_body_def try_except_def Let_def)

lemma fetch_node_data_total:
  "\<exists>res w'. fetch_node_data response now (self, w) = (Inr res, (self, w'))
     \<and> requests_made w' = requests_made w + 1 \<and> data_file w' = data_file w"
proof (cases response)
  case (Payload data)
  then show ?thesis by (simp add: fetch_payload)
qed (use fetch_failure [of response now self w] in auto)

lemma save_node_data_total:
  "\<exists>w'. save_node_data outcome now (self, w) = (Inr (), (self, w'))
     \<and> requests_made w' = requests_made w"
  by (cases outcome) (simp_all add: save_node_data_def save_body_def try_except_def Let_def)

lemma update_after_failed_fetch:
  assumes "fetch_node_data (http env) (fetch_time env) st = (Inr None, st1)"
  shows "update_node_data env st = (Inr False, st1)"
  using assms by (simp add: update_node_data_def)

lemma update_after_successful_fetch:
  assumes "fetch_node_data (http env) (fetch_time env) st = (Inr (Some snap), (self1, w1))"
  shows "update_node_data env st =
     (Inr True, snd (save_node_data (storage env) (save_time env)
        (\<lparr>current_data = Some snap, previous_data = current_data self1\<rparr>, w1)))"
proof -
  let ?self2 = "\<lparr>current_data = Some snap, previous_data = current_data self1\<rparr>"
  have rot: "self1\<lparr>previous_data := current_data self1, current_data := Some snap\<rparr> = ?self2"
    by simp
  from save_node_data_total [of "storage env" "save_time env" ?self2 w1]
  obtain w2 where "save_node_data (storage env) (save_time env) (?self2, w1) = (Inr (), (?self2, w2))"
    by blast
  then show ?thesis using assms by (simp add: update_node_data_def Let_def rot)
qed

lemma count_nodes_payload_a: "count_nodes (payload_nodes payload_a) (0, 0) = (2, 1)"
  by (simp add: payload_a_def)

lemma fetch_payload_a:
  "fetch_node_data (Payload payload_a) ''2024-05-01T12:00:00'' (self, w) =
     (Inr (Some snapshot_new), (self, w\<lparr>requests_made := requests_made w + 1\<rparr>))"
  by (simp add: fetch_payload count_nodes_payload_a snapshot_new_def) (simp add: payload_a_def)

lemma fetch_request_fails:
  "fetch_node_data Request_Fails now (self, w) =
     (Inr None, (self, w\<lparr>requests_made := requests_made w + 1,
        ui_errors := ui_errors w @ [Error_fetching_node_data RequestException]\<rparr>))"
  by (simp add: fetch_node_data_def fetch_body_def try_except_def Let_def)

text \<open>
  Claim C4. For every starting window and every outcome of the request,
  \<^verbatim>\<open>update_node_data\<close> calls the fetcher once (one more request has been issued when it
  returns). When the fetch returns no snapshot it leaves both slots unchanged and returns
  \<^verbatim>\<open>False\<close>; when the fetch returns a snapshot it returns \<^verbatim>\<open>True\<close>, the new \<open>current\<close>
  is that snapshot and the new \<open>previous\<close> is the old \<open>current\<close>. The old \<open>previous\<close>
  is discarded: the call behaves the same whatever it was, and the window has its two
  slots only.
\<close>

theorem update_node_data_rotates_window:
  "\<exists>new_data w1 ok self' w'.
       fetch_node_data (http env) (fetch_time env) (self, w) = (Inr new_data, (self, w1))
     \<and> update_node_data env (self, w) = (Inr ok, (self', w'))
     \<and> requests_made w' = requests_made w + 1
     \<and> (new_data = None \<longrightarrow> \<not> ok \<and> self' = self)
     \<and> (\<forall>snap. new_data = Some snap \<longrightarrow>
           ok \<and> current_data self' = Some snap \<and> previous_data self' = current_data self
         \<and> (\<forall>old. update_node_data env (self\<lparr>previous_data := old\<rparr>, w)
               = update_node_data env (self, w)))"
proof -
  from fetch_node_data_total [of "http env" "fetch_time env" self w]
  obtain new_data w1 where
    f: "fetch_node_data (http env) (fetch_time env) (self, w) = (Inr new_data, (self, w1))"
    and req: "requests_made w1 = requests_made w + 1"
    by blast
  show ?thesis
  proof (cases new_data)
    case None
    with f have "update_node_data env (self, w) = (Inr False, (self, w1))"
      by (simp add: update_after_failed_fetch)
    with f req None show ?thesis by blast
  next
    case (Some snap)
    let ?self2 = "\<lparr>current_data = Some snap, previous_data = current_data self\<rparr>"
    from save_node_data_total [of "storage env" "save_time env" ?self2 w1]
    obtain w2 where
      s: "save_node_data (storage env) (save_time env) (?self2, w1) = (Inr (), (?self2, w2))"
      and req2: "requests_made w2 = requests_made w1"
      by blast
    have u: "update_node_data env (self, w) = (Inr True, (?self2, w2))"
      using update_after_successful_fetch [of env "(self, w)" snap self w1] f Some s by simp
    have indep: "update_node_data env (self\<lparr>previous_data := old\<rparr>, w)
        = update_node_data env (self, w)" for old
    proof -
      from fetch_node_data_total [of "http env" "fetch_time env" "self\<lparr>previous_data := old\<rparr>" w]
      obtain nd wa where
        fa: "fetch_node_data (http env) (fetch_time env) (self\<lparr>previous_data := old\<rparr>, w)
           = (Inr nd, (self\<lparr>previous_data := old\<rparr>, wa))"
        by blast
      have same: "nd = new_data \<and> wa = w1"
      proof (cases "http env")
        case (Payload data)
        with f fa show ?thesis by (simp add: fetch_payload)
      qed (use f fa Some in \<open>simp_all add: fetch_node_data_def fetch_body_def try_except_def Let_def\<close>)
      with fa Some have "fetch_node_data (http env) (fetch_time env) (self\<lparr>previous_data := old\<rparr>, w)
           = (Inr (Some snap), (self\<lparr>previous_data := old\<rparr>, w1))"
        by simp
      from update_after_successful_fetch [OF this] u s show ?thesis by simp
    qed
    from req req2 have "requests_made w2 = requests_made w + 1" by simp
    with f u Some indep show ?thesis by auto
  qed
qed

text \<open>
  From scenario A, a successful fetch rotates the window and a failed request leaves it
  as it was; either way exactly one request was made.
\<close>

theorem update_node_data_rotates_window_witness:
  "(\<exists>self' w'. update_node_data env_ok (scenario_a, world_a) = (Inr True, (self', w'))
       \<and> current_data self' = Some snapshot_new
       \<and> previous_data self' = Some snapshot_cur_a
       \<and> requests_made w' = 1)
   \<and> (\<exists>w'. update_node_data env_offline (scenario_a, world_a) = (Inr False, (scenario_a, w'))
       \<and> requests_made w' = 1)"
proof (rule conjI)
  from update_node_data_rotates_window [of env_ok scenario_a world_a]
  obtain new_data w1 ok self' w' where
    f: "fetch_node_data (http env_ok) (fetch_time env_ok) (scenario_a, world_a)
          = (Inr new_data, (scenario_a, w1))"
    and u: "update_node_data env_ok (scenario_a, world_a) = (Inr ok, (self', w'))"
    and req: "requests_made w' = requests_made world_a + 1"
    and some: "\<forall>snap. new_data = Some snap \<longrightarrow>
           ok \<and> current_data self' = Some snap \<and> previous_data self' = current_data scenario_a
         \<and> (\<forall>old. update_node_data env_ok (scenario_a\<lparr>previous_data := old\<rparr>, world_a)
               = update_node_data env_ok (scenario_a, world_a))"
    by (elim exE conjE) (rule that; assumption)
  from f have nd: "new_data = Some snapshot_new"
    by (simp add: env_ok_def fetch_payload_a)
  from some [rule_format, OF nd] have ok: ok
    and c: "current_data self' = Some snapshot_new"
    and p: "previous_data self' = current_data scenario_a"
    by simp_all
  from u ok have u': "update_node_data env_ok (scenario_a, world_a) = (Inr True, (self', w'))"
    by simp
  from p have p': "previous_data self' = Some snapshot_cur_a" by (simp add: scenario_a_def)
  from req have r: "requests_made w' = 1" by (simp add: world_a_def)
  show "\<exists>self' w'. update_node_data env_ok (scenario_a, world_a) = (Inr True, (self', w'))
       \<and> current_data self' = Some snapshot_new
       \<and> previous_data self' = Some snapshot_cur_a
       \<and> requests_made w' = 1"
    by (intro exI [of _ self'] exI [of _ w'] conjI u' c p' r)
next
  from update_node_data_rotates_window [of env_offline scenario_a world_a]
  obtain new_data w1 ok self' w' where
    f: "fetch_node_data (http env_offline) (fetch_time env_offline) (scenario_a, world_a)
          = (Inr new_data, (scenario_a, w1))"
    and u: "update_node_data env_offline (scenario_a, world_a) = (Inr ok, (self', w'))"
    and req: "requests_made w' = requests_made world_a + 1"
    and none: "new_data = None \<longrightarrow> \<not> ok \<and> self' = scenario_a"
    by (elim exE conjE) (rule that; assumption)
  from f have nd: "new_data = None"
    by (simp add: env_offline_def fetch_request_fails)
  from none nd have ok: "\<not> ok" and s: "self' = scenario_a" by simp_all
  from u ok s have u': "update_node_data env_offline (scenario_a, world_a)
      = (Inr False, (scenario_a, w'))"
    by simp
  from req have r: "requests_made w' = 1" by (simp add: world_a_def)
  show "\<exists>w'. update_node_data env_offline (scenario_a, world_a) = (Inr False, (scenario_a, w'))
       \<and> requests_made w' = 1"
    by (intro exI [of _ w'] conjI u' r)
qed


subsection \<open>The network signal\<close>

text \<open>
  Claim C5. \<^verbatim>\<open>calculate_network_signal\<close> returns INSUFFICIENT_DATA when a slot is
  missing; otherwise \<open>total_change = current.total_nodes - previous.total_nodes\<close>, and the
  signal is NETWORK STRONG GROWTH iff \<open>total_change > 100\<close>, NETWORK GROWING iff
  \<open>50 < total_change \<le> 100\<close>, NETWORK STABLE iff \<open>0 < total_change \<le> 50\<close>, and NETWORK
  SHRINKING iff \<open>total_change \<le> 0\<close>; in particular \<open>total_change = 0\<close> gives NETWORK
  SHRINKING.
\<close>

theorem network_signal_classification:
  "(current_data self = None \<or> previous_data self = None
      \<longrightarrow> network_signal (calculate_network_signal self) = ''INSUFFICIENT_DATA'')
   \<and> (\<forall>cur prev. current_data self = Some cur \<and> previous_data self = Some prev \<longrightarrow>
        total_change (calculate_network_signal self) = total_nodes cur - total_nodes prev
        \<and> (network_signal (calculate_network_signal self) = ''NETWORK STRONG GROWTH'')
            = (total_nodes cur - total_nodes prev > 100)
        \<and> (network_signal (calculate_network_signal self) = ''NETWORK GROWING'')
            = (50 < total_nodes cur - total_nodes prev \<and> total_nodes cur - total_nodes prev \<le> 100)
        \<and> (network_signal (calculate_network_signal self) = ''NETWORK STABLE'')
            = (0 < total_nodes cur - total_nodes prev \<and> total_nodes cur - total_nodes prev \<le> 50)
        \<and> (network_signal (calculate_network_signal self) = ''NETWORK SHRINKING'')
            = (total_nodes cur - total_nodes prev \<le> 0)
        \<and> (total_nodes cur - total_nodes prev = 0
            \<longrightarrow> network_signal (calculate_network_signal self) = ''NETWORK SHRINKING''))"
proof (intro conjI allI impI)
  assume "current_data self = None \<or> previous_data self = None"
  then show "network_signal (calculate_network_signal self) = ''INSUFFICIENT_DATA''"
    by (auto simp: calculate_network_signal_def split: option.splits)
next
  fix cur prev
  assume both: "current_data self = Some cur \<and> previous_data self = Some prev"
  let ?d = "total_nodes cur - total_nodes prev"
  have sig: "network_signal (calculate_network_signal self) =
      (if ?d > 100 then ''NETWORK STRONG GROWTH''
       else if ?d > 50 then ''NETWORK GROWING''
       else if ?d > 0 then ''NETWORK STABLE''
       else ''NETWORK SHRINKING'')"
    using both by (simp add: calculate_network_signal_def Let_def)
  show "total_change (calculate_network_signal self) = ?d"
    using both by (simp add: calculate_network_signal_def Let_def)
  show "(network_signal (calculate_network_signal self) = ''NETWORK STRONG GROWTH'') = (?d > 100)"
    by (simp add: sig)
  show "(network_signal (calculate_network_signal self) = ''NETWORK GROWING'')
      = (50 < ?d \<and> ?d \<le> 100)"
    by (simp add: sig)
  show "(network_signal (calculate_network_signal self) = ''NETWORK STABLE'')
      = (0 < ?d \<and> ?d \<le> 50)"
    by (simp add: sig)
  show "(network_signal (calculate_network_signal self) = ''NETWORK SHRINKING'') = (?d \<le> 0)"
    by (simp add: sig)
  show "network_signal (calculate_network_signal self) = ''NETWORK SHRINKING''" if "?d = 0"
    using that by (simp add: sig)
qed

text \<open>
  Scenario D (9000 nodes twice) is NETWORK SHRINKING; scenario C is INSUFFICIENT_DATA.
\<close>

theorem network_signal_classification_witness:
  "current_data scenario_d = Some snapshot_cur_d
   \<and> previous_data scenario_d = Some snapshot_prev_a
   \<and> total_nodes snapshot_cur_d - total_nodes snapshot_prev_a = 0
   \<and> total_change (calculate_network_signal scenario_d) = 0
   \<and> network_signal (calculate_network_signal scenario_d) = ''NETWORK SHRINKING''
   \<and> previous_data scenario_c = None
   \<and> network_signal (calculate_network_signal scenario_c) = ''INSUFFICIENT_DATA''"
proof -
  have d: "current_data scenario_d = Some snapshot_cur_d \<and> previous_data scenario_d = Some snapshot_prev_a"
    by (simp add: scenario_d_def)
  have z: "total_nodes snapshot_cur_d - total_nodes snapshot_prev_a = 0"
    by (simp add: snapshot_cur_d_def snapshot_prev_a_def)
  have c: "previous_data scenario_c = None" by (simp add: scenario_c_def)
  from network_signal_classification [of scenario_d] d z
  have "total_change (calculate_network_signal scenario_d) = 0
      \<and> network_signal (calculate_network_signal scenario_d) = ''NETWORK SHRINKING''"
    by simp
  moreover from network_signal_classification [of scenario_c] c
  have "network_signal (calculate_network_signal scenario_c) = ''INSUFFICIENT_DATA''"
    by simp
  ultimately show ?thesis using d z c by simp
qed


subsection \<open>Saving\<close>

text \<open>
  Claim C6 does not hold as stated: \<^verbatim>\<open>save_node_data\<close> opens the file itself in mode
  \<^verbatim>\<open>'w'\<close> and writes into it; there is no temporary file and no replace. When the write
  fails after the file was opened, the document that was on disk is gone and what is left
  does not parse: the next \<^verbatim>\<open>load_node_data\<close> yields the empty window.
\<close>

theorem save_in_place_leaves_unparseable_file:
  "data_file world_a = File_Document document_a
   \<and> data_file (snd (snd (save_node_data Write_Fails ''2024-05-01T12:00:01''
        (scenario_a, world_a)))) = File_Malformed
   \<and> fst (snd (load_node_data (snd (save_node_data Write_Fails ''2024-05-01T12:00:01''
        (scenario_a, world_a))))) = empty_window"
  by (simp add: save_node_data_def save_body_def try_except_def load_node_data_def
      load_body_def world_a_def empty_window_def)

text \<open>
  Claim C6, amended. \<^verbatim>\<open>save_node_data\<close> never raises an I/O failure to its caller: it
  returns normally and the failure is shown through \<^verbatim>\<open>st.error\<close>. On success the file
  holds the window and the timestamp. The file is written in place: it is untouched when
  opening fails, and left cut short and unparseable when the write fails after opening.
  A save failure does not roll back the rotation: after a successful fetch
  \<^verbatim>\<open>update_node_data\<close> returns \<^verbatim>\<open>True\<close> with the rotated window, also when the save
  failed.
\<close>

theorem save_node_data_reports_failure:
  "\<exists>w'. save_node_data outcome now (self, w) = (Inr (), (self, w'))
     \<and> (outcome = Write_Succeeds \<longrightarrow>
          data_file w' = File_Document \<lparr>stored_current_data = current_data self,
             stored_previous_data = previous_data self, last_updated = now\<rparr>
          \<and> ui_errors w' = ui_errors w)
     \<and> (outcome \<noteq> Write_Succeeds \<longrightarrow> ui_errors w' = ui_errors w @ [Error_saving_data OSError])
     \<and> (outcome = Open_Fails \<longrightarrow> data_file w' = data_file w)
     \<and> (outcome = Write_Fails \<longrightarrow> data_file w' = File_Malformed)
     \<and> (\<forall>snap w1. fetch_node_data (http env) (fetch_time env) (self, w) = (Inr (Some snap), (self, w1))
          \<longrightarrow> (\<exists>w2. update_node_data env (self, w) =
                 (Inr True, (\<lparr>current_data = Some snap, previous_data = current_data self\<rparr>, w2))
               \<and> (storage env \<noteq> Write_Succeeds \<longrightarrow>
                    ui_errors w2 = ui_errors w1 @ [Error_saving_data OSError])))"
proof -
  have save: "\<exists>w'. save_node_data out t (a, v) = (Inr (), (a, w'))
     \<and> (out = Write_Succeeds \<longrightarrow>
          data_file w' = File_Document \<lparr>stored_current_data = current_data a,
             stored_previous_data = previous_data a, last_updated = t\<rparr>
          \<and> ui_errors w' = ui_errors v)
     \<and> (out \<noteq> Write_Succeeds \<longrightarrow> ui_errors w' = ui_errors v @ [Error_saving_data OSError])
     \<and> (out = Open_Fails \<longrightarrow> data_file w' = data_file v)
     \<and> (out = Write_Fails \<longrightarrow> data_file w' = File_Malformed)" for out t a v
    by (cases out) (simp_all add: save_node_data_def save_body_def try_except_def Let_def)
  have upd: "\<exists>w2. update_node_data env (self, w) =
                 (Inr True, (\<lparr>current_data = Some snap, previous_data = current_data self\<rparr>, w2))
               \<and> (storage env \<noteq> Write_Succeeds \<longrightarrow>
                    ui_errors w2 = ui_errors w1 @ [Error_saving_data OSError])"
    if f: "fetch_node_data (http env) (fetch_time env) (self, w) = (Inr (Some snap), (self, w1))"
    for snap w1
  proof -
    let ?self2 = "\<lparr>current_data = Some snap, previous_data = current_data self\<rparr>"
    from save [of "storage env" "save_time env" ?self2 w1] obtain w2 where
      s: "save_node_data (storage env) (save_time env) (?self2, w1) = (Inr (), (?self2, w2))"
      and e: "storage env \<noteq> Write_Succeeds \<longrightarrow>
                ui_errors w2 = ui_errors w1 @ [Error_saving_data OSError]"
      by blast
    from update_after_successful_fetch [OF f] s e show ?thesis by simp
  qed
  from save [of outcome now self w] upd show ?thesis by blast
qed

text \<open>
  A full disk during the save of a rotated scenario A: an error is shown, the rotation
  stays and \<^verbatim>\<open>update_node_data\<close> returns \<^verbatim>\<open>True\<close>.
\<close>

theorem save_node_data_reports_failure_witness:
  "storage env_disk_full \<noteq> Write_Succeeds
   \<and> (\<exists>w'. save_node_data Write_Fails ''2024-05-01T12:00:01'' (scenario_a, world_a)
          = (Inr (), (scenario_a, w'))
        \<and> ui_errors w' = [Error_saving_data OSError])
   \<and> (\<exists>w2. update_node_data env_disk_full (scenario_a, world_a) =
          (Inr True, (\<lparr>current_data = Some snapshot_new,
                        previous_data = Some snapshot_cur_a\<rparr>, w2))
        \<and> ui_errors w2 = [Error_saving_data OSError])"
proof -
  have st: "storage env_disk_full \<noteq> Write_Succeeds" by (simp add: env_disk_full_def)
  have wf: "Write_Fails \<noteq> Write_Succeeds" by simp
  from save_node_data_reports_failure
    [of Write_Fails "''2024-05-01T12:00:01''" scenario_a world_a env_disk_full]
  obtain w' where
    s: "save_node_data Write_Fails ''2024-05-01T12:00:01'' (scenario_a, world_a)
          = (Inr (), (scenario_a, w'))"
    and e: "Write_Fails \<noteq> Write_Succeeds \<longrightarrow>
          ui_errors w' = ui_errors world_a @ [Error_saving_data OSError]"
    and upd: "\<forall>snap w1. fetch_node_data (http env_disk_full) (fetch_time env_disk_full)
            (scenario_a, world_a) = (Inr (Some snap), (scenario_a, w1))
          \<longrightarrow> (\<exists>w2. update_node_data env_disk_full (scenario_a, world_a) =
                 (Inr True, (\<lparr>current_data = Some snap,
                               previous_data = current_data scenario_a\<rparr>, w2))
               \<and> (storage env_disk_full \<noteq> Write_Succeeds \<longrightarrow>
                    ui_errors w2 = ui_errors w1 @ [Error_saving_data OSError]))"
    by (elim exE conjE) (rule that; assumption)
  from mp [OF e wf] have e': "ui_errors w' = [Error_saving_data OSError]"
    by (simp add: world_a_def)
  have f: "fetch_node_data (http env_disk_full) (fetch_time env_disk_full) (scenario_a, world_a)
      = (Inr (Some snapshot_new), (scenario_a, world_a\<lparr>requests_made := requests_made world_a + 1\<rparr>))"
    by (simp add: env_disk_full_def fetch_payload_a)
  from upd [rule_format, OF f] obtain w2 where
    u: "update_node_data env_disk_full (scenario_a, world_a) =
          (Inr True, (\<lparr>current_data = Some snapshot_new,
                        previous_data = current_data scenario_a\<rparr>, w2))"
    and e2: "storage env_disk_full \<noteq> Write_Succeeds \<longrightarrow>
          ui_errors w2 = ui_errors (world_a\<lparr>requests_made := requests_made world_a + 1\<rparr>)
            @ [Error_saving_data OSError]"
    by (elim exE conjE) (rule that; assumption)
  from u have u': "update_node_data env_disk_full (scenario_a, world_a) =
          (Inr True, (\<lparr>current_data = Some snapshot_new,
                        previous_data = Some snapshot_cur_a\<rparr>, w2))"
    by (simp add: scenario_a_def)
  from mp [OF e2 st] have e2': "ui_errors w2 = [Error_saving_data OSError]"
    by (simp add: world_a_def)
  show ?thesis
    by (intro conjI st exI [of _ w'] exI [of _ w2] s e' u' e2')
qed


section \<open>Monotonicity of the confidence\<close>







section \<open>Double arithmetic\<close>

subsection \<open>Rounding\<close>

lemma round_half_even_le:
  assumes "y \<le> real_of_int n"
  shows "round_half_even y \<le> n"
proof (cases "y = real_of_int n")
  case True
  then show ?thesis by (simp add: round_half_even_def)
next
  case False
  with assms have "y < real_of_int n" by simp
  then have "\<lfloor>y\<rfloor> < n" by (simp add: floor_less_iff)
  then show ?thesis by (simp add: round_half_even_def Let_def)
qed

lemma round_half_even_ge:
  assumes "real_of_int n \<le> y"
  shows "n \<le> round_half_even y"
proof -
  from assms have "n \<le> \<lfloor>y\<rfloor>" by (simp add: le_floor_iff)
  then show ?thesis by (simp add: round_half_even_def Let_def)
qed

lemma round_half_even_small:
  assumes "0 \<le> y" and "y < 1 / 2"
  shows "round_half_even y = 0"
proof -
  from assms have "\<lfloor>y\<rfloor> = 0" by (simp add: floor_eq_iff)
  with assms show ?thesis by (simp add: round_half_even_def)
qed

lemma double_ulp_pos: "0 < double_ulp x"
  by (simp add: double_ulp_def)

lemma double_exponent_ge: "- 1022 \<le> double_exponent x"
  by (simp add: double_exponent_def)

lemma double_ulp_ge: "2 powr (- 1074) \<le> double_ulp x"
proof -
  have "real_of_int (- 1074) \<le> real_of_int (double_exponent x - 52)"
    using double_exponent_ge [of x] by linarith
  then show ?thesis unfolding double_ulp_def by simp
qed

lemma double_ulp_le_abs:
  assumes "2 powr (- 1074) \<le> \<bar>x\<bar>"
  shows "double_ulp x \<le> \<bar>x\<bar>"
proof -
  have pos: "0 < \<bar>x\<bar>" using assms by (smt (verit) powr_gt_zero)
  show ?thesis
  proof (cases "- 1022 \<le> \<lfloor>log 2 \<bar>x\<bar>\<rfloor>")
    case True
    then have e: "double_exponent x = \<lfloor>log 2 \<bar>x\<bar>\<rfloor>" by (simp add: double_exponent_def)
    have "2 powr real_of_int \<lfloor>log 2 \<bar>x\<bar>\<rfloor> \<le> \<bar>x\<bar>"
      using pos by (subst le_log_iff [symmetric]) simp_all
    moreover have "2 powr real_of_int (\<lfloor>log 2 \<bar>x\<bar>\<rfloor> - 52) \<le> 2 powr real_of_int \<lfloor>log 2 \<bar>x\<bar>\<rfloor>"
      by simp
    ultimately show ?thesis unfolding double_ulp_def e by linarith
  next
    case False
    then have e: "double_exponent x = - 1022" by (simp add: double_exponent_def)
    show ?thesis unfolding double_ulp_def e using assms by simp
  qed
qed

lemma round_to_double_pos:
  assumes "2 powr (- 1074) \<le> x"
  shows "2 powr (- 1074) \<le> round_to_double x"
proof -
  have pos: "0 < x" using assms by (smt (verit) powr_gt_zero)
  then have "double_ulp x \<le> x" using double_ulp_le_abs [of x] assms by simp
  then have "real_of_int 1 \<le> x / double_ulp x"
    using double_ulp_pos [of x] by (simp add: le_divide_eq)
  then have "1 \<le> round_half_even (x / double_ulp x)" by (rule round_half_even_ge)
  then have "1 * double_ulp x \<le> real_of_int (round_half_even (x / double_ulp x)) * double_ulp x"
    using double_ulp_pos [of x] by (intro mult_right_mono) simp_all
  with double_ulp_ge [of x] pos show ?thesis by (simp add: round_to_double_def)
qed

lemma round_to_double_neg:
  assumes "x \<le> - (2 powr (- 1074))"
  shows "round_to_double x \<le> - (2 powr (- 1074))"
proof -
  have neg: "x < 0" using assms by (smt (verit) powr_gt_zero)
  then have "double_ulp x \<le> - x" using double_ulp_le_abs [of x] assms by simp
  then have "x / double_ulp x \<le> real_of_int (- 1)"
    using double_ulp_pos [of x] by (simp add: divide_le_eq)
  then have "round_half_even (x / double_ulp x) \<le> - 1" by (rule round_half_even_le)
  then have "real_of_int (round_half_even (x / double_ulp x)) * double_ulp x \<le> (- 1) * double_ulp x"
    using double_ulp_pos [of x] by (intro mult_right_mono) simp_all
  with double_ulp_ge [of x] neg show ?thesis by (simp add: round_to_double_def)
qed

lemma double_exponent_upper:
  assumes "x \<noteq> 0"
  shows "\<bar>x\<bar> < 2 powr real_of_int (double_exponent x + 1)"
proof -
  have pos: "0 < \<bar>x\<bar>" using assms by simp
  have "log 2 \<bar>x\<bar> < real_of_int (\<lfloor>log 2 \<bar>x\<bar>\<rfloor> + 1)" by linarith
  then have "\<bar>x\<bar> < 2 powr real_of_int (\<lfloor>log 2 \<bar>x\<bar>\<rfloor> + 1)"
    using pos by (subst (asm) log_less_iff) simp_all
  moreover have "2 powr real_of_int (\<lfloor>log 2 \<bar>x\<bar>\<rfloor> + 1)
      \<le> 2 powr real_of_int (double_exponent x + 1)"
    by (simp add: double_exponent_def)
  ultimately show ?thesis by linarith
qed

lemma round_to_double_bound:
  assumes "\<bar>x\<bar> < 2 ^ 1023"
  shows "\<bar>round_to_double x\<bar> < 2 ^ 1024"
proof (cases "x = 0")
  case True
  then show ?thesis by (simp add: round_to_double_def)
next
  case False
  let ?e = "double_exponent x"
  let ?u = "double_ulp x"
  let ?m = "round_half_even (x / ?u)"
  have u: "0 < ?u" by (rule double_ulp_pos)
  have "log 2 \<bar>x\<bar> < 1023"
    using False assms by (subst log_less_iff) simp_all
  then have "\<lfloor>log 2 \<bar>x\<bar>\<rfloor> < 1023" by (simp add: floor_less_iff)
  then have e: "?e \<le> 1022" by (simp add: double_exponent_def)
  have split: "2 powr real_of_int (?e + 1) = 2 ^ 53 * ?u"
  proof -
    have "real_of_int (?e + 1) = 53 + real_of_int (?e - 52)" by simp
    then have "2 powr real_of_int (?e + 1) = 2 powr 53 * 2 powr real_of_int (?e - 52)"
      by (simp only: powr_add)
    then show ?thesis by (simp add: double_ulp_def)
  qed
  from double_exponent_upper [OF False] split have ax: "\<bar>x\<bar> < 2 ^ 53 * ?u" by simp
  then have up: "x / ?u \<le> real_of_int (2 ^ 53)" and dn: "real_of_int (- (2 ^ 53)) \<le> x / ?u"
    using u by (simp_all add: divide_le_eq le_divide_eq abs_less_iff)
  have "?m \<le> 2 ^ 53" using up by (rule round_half_even_le)
  moreover have "- (2 ^ 53) \<le> ?m" using dn by (rule round_half_even_ge)
  ultimately have "\<bar>?m\<bar> \<le> 2 ^ 53" by (simp add: abs_le_iff)
  then have "real_of_int \<bar>?m\<bar> \<le> real_of_int (2 ^ 53)" by (simp only: of_int_le_iff)
  then have "\<bar>real_of_int ?m\<bar> \<le> 2 ^ 53" by simp
  then have "\<bar>real_of_int ?m\<bar> * ?u \<le> 2 ^ 53 * ?u"
    using u by (intro mult_right_mono) simp_all
  then have "\<bar>round_to_double x\<bar> \<le> 2 powr real_of_int (?e + 1)"
    using False u split by (simp add: round_to_double_def abs_mult)
  moreover have "2 powr real_of_int (?e + 1) \<le> 2 powr real_of_int 1023"
  proof (rule powr_mono)
    from e have "?e + 1 \<le> 1023" by simp
    then show "real_of_int (?e + 1) \<le> real_of_int 1023" by (simp only: of_int_le_iff)
  qed simp
  moreover have "2 powr real_of_int 1023 < (2::real) ^ 1024" by simp
  ultimately show ?thesis by linarith
qed

lemma round_to_double_zero: "round_to_double 0 = 0"
  by (simp add: round_to_double_def)

lemma round_to_double_underflow:
  assumes "0 < x" and "x < 1 / 2 ^ 1075"
  shows "round_to_double x = 0"
proof -
  have "x < 2 powr (- 1021)"
  proof -
    have "(1::real) / 2 ^ 1075 \<le> 1 / 2 ^ 1021" by (intro frac_le power_increasing) simp_all
    then show ?thesis using assms(2) by (simp add: powr_minus inverse_eq_divide)
  qed
  then have "log 2 \<bar>x\<bar> < - 1021" using assms(1) by (subst log_less_iff) simp_all
  then have "\<lfloor>log 2 \<bar>x\<bar>\<rfloor> < - 1021" by (simp add: floor_less_iff)
  then have e: "double_exponent x = - 1022" by (simp add: double_exponent_def)
  have u: "double_ulp x = 1 / 2 ^ 1074"
    unfolding double_ulp_def e by (simp add: powr_minus inverse_eq_divide)
  have "x * 2 ^ 1074 < 1 / 2 ^ 1075 * 2 ^ 1074" using assms(2) by (intro mult_strict_right_mono) simp_all
  also have "(1::real) / 2 ^ 1075 * 2 ^ 1074 = 1 / 2" by simp
  finally have "x / double_ulp x < 1 / 2" by (simp add: u)
  moreover have "0 \<le> x / double_ulp x" using assms(1) by (simp add: u)
  ultimately have "round_half_even (x / double_ulp x) = 0" by (intro round_half_even_small)
  then show ?thesis by (simp add: round_to_double_def)
qed

lemma round_to_double_in_binade:
  assumes "2 powr real_of_int e \<le> \<bar>x\<bar>" and "\<bar>x\<bar> < 2 powr real_of_int (e + 1)"
    and "- 1022 \<le> e"
  shows "round_to_double x =
     real_of_int (round_half_even (x / 2 powr real_of_int (e - 52))) * 2 powr real_of_int (e - 52)"
proof -
  have pos: "0 < \<bar>x\<bar>" using assms(1) by (smt (verit) powr_gt_zero)
  have "\<lfloor>log 2 \<bar>x\<bar>\<rfloor> = e"
    using assms(1,2) pos by (subst floor_log_eq_powr_iff) simp_all
  with assms(3) have "double_exponent x = e" by (simp add: double_exponent_def)
  then have "double_ulp x = 2 powr real_of_int (e - 52)" by (simp add: double_ulp_def)
  with pos show ?thesis by (simp add: round_to_double_def)
qed

subsection \<open>Division and the percentage\<close>

lemma truediv_double_pos:
  assumes "0 < a" and "a < 2 ^ 1023" and "0 < b" and "b \<le> 2 ^ 1074"
  shows "\<exists>q. truediv_double a b = Inr q \<and> 2 powr (- 1074) \<le> q"
proof -
  let ?x = "real_of_int a / real_of_int b"
  have "real_of_int b \<le> 2 ^ 1074" using assms(4) by (metis of_int_le_iff of_int_numeral of_int_power)
  moreover have "1 \<le> real_of_int a" using assms(1) by simp
  ultimately have "1 / 2 ^ 1074 \<le> ?x"
    using assms(3) by (intro frac_le) simp_all
  then have low: "2 powr (- 1074) \<le> ?x" by (simp add: powr_minus inverse_eq_divide)
  have "real_of_int a < 2 ^ 1023" using assms(2) by (metis of_int_less_iff of_int_numeral of_int_power)
  moreover have "?x \<le> real_of_int a"
    using assms(1,3) by (simp add: divide_le_eq mult_le_cancel_left1)
  moreover have "0 \<le> ?x" using assms(1,3) by simp
  ultimately have "\<bar>?x\<bar> < 2 ^ 1023" by linarith
  then have "\<bar>round_to_double ?x\<bar> < 2 ^ 1024" by (rule round_to_double_bound)
  with assms(3) round_to_double_pos [OF low] show ?thesis
    by (simp add: truediv_double_def Let_def)
qed

lemma truediv_double_neg:
  assumes "a < 0" and "- (2 ^ 1023) < a" and "0 < b" and "b \<le> 2 ^ 1074"
  shows "\<exists>q. truediv_double a b = Inr q \<and> q \<le> - (2 powr (- 1074))"
proof -
  let ?x = "real_of_int a / real_of_int b"
  have "real_of_int b \<le> 2 ^ 1074"
    using assms(4) by (metis of_int_le_iff of_int_numeral of_int_power)
  moreover have "1 \<le> real_of_int (- a)" using assms(1) by simp
  ultimately have "1 / 2 ^ 1074 \<le> real_of_int (- a) / real_of_int b"
    using assms(3) by (intro frac_le) simp_all
  then have "1 / 2 ^ 1074 \<le> - ?x" by (simp only: of_int_minus minus_divide_left)
  then have "?x \<le> - (1 / 2 ^ 1074)" by (simp only: le_minus_iff)
  moreover have "(2::real) powr (- 1074) = 1 / 2 ^ 1074"
    by (simp add: powr_minus inverse_eq_divide)
  ultimately have low: "?x \<le> - (2 powr (- 1074))" by (simp only:)
  have "real_of_int (- a) < 2 ^ 1023"
    using assms(2) by (metis minus_less_iff of_int_less_iff of_int_minus of_int_numeral of_int_power)
  moreover have "real_of_int (- a) / real_of_int b \<le> real_of_int (- a)"
  proof -
    have "1 \<le> real_of_int b" using assms(3) by simp
    moreover have "0 \<le> real_of_int (- a)" using assms(1) by simp
    ultimately have "real_of_int (- a) / real_of_int b \<le> real_of_int (- a) / 1"
      by (intro divide_left_mono) simp_all
    then show ?thesis by simp
  qed
  moreover have "?x \<le> 0" using assms(1,3) by (simp add: divide_le_0_iff)
  ultimately have "\<bar>?x\<bar> < 2 ^ 1023" by simp
  then have "\<bar>round_to_double ?x\<bar> < 2 ^ 1024" by (rule round_to_double_bound)
  with assms(3) round_to_double_neg [OF low] show ?thesis
    by (simp add: truediv_double_def Let_def)
qed

lemma truediv_double_zero:
  assumes "b \<noteq> 0"
  shows "truediv_double 0 b = Inr 0"
  using assms by (simp add: truediv_double_def round_to_double_zero)

lemma float_mul_100_sign:
  "2 powr (- 1074) \<le> q \<Longrightarrow> float_sign (float_mul q 100) = 1"
  "q \<le> - (2 powr (- 1074)) \<Longrightarrow> float_sign (float_mul q 100) = - 1"
  "float_sign (float_mul 0 100) = 0"
proof -
  have tiny: "0 < (2::real) powr (- 1074)" by simp
  {
    assume q: "2 powr (- 1074) \<le> q"
    with tiny have "0 < q" by linarith
    then have "q \<le> q * 100" by simp
    with q have "2 powr (- 1074) \<le> q * 100" by linarith
    from round_to_double_pos [OF this] tiny have "0 < round_to_double (q * 100)" by linarith
    then show "float_sign (float_mul q 100) = 1" by (simp add: float_mul_def Let_def)
  }
  {
    assume q: "q \<le> - (2 powr (- 1074))"
    with tiny have "q < 0" by linarith
    then have "q * 100 \<le> q" by simp
    with q have "q * 100 \<le> - (2 powr (- 1074))" by linarith
    from round_to_double_neg [OF this] tiny have neg: "round_to_double (q * 100) < 0" by linarith
    have "\<not> (2::real) ^ 1024 \<le> round_to_double (q * 100)"
    proof
      assume "(2::real) ^ 1024 \<le> round_to_double (q * 100)"
      moreover have "(0::real) < 2 ^ 1024" by simp
      ultimately show False using neg by linarith
    qed
    with neg show "float_sign (float_mul q 100) = - 1" by (simp add: float_mul_def Let_def)
  }
  show "float_sign (float_mul 0 100) = 0"
    by (simp add: float_mul_def round_to_double_zero)
qed

lemma percentage_change_double_sign:
  assumes "0 < prev_tor" and "prev_tor \<le> 2 ^ 1074" and "\<bar>change\<bar> < 2 ^ 1023"
  shows "\<exists>pct. percentage_change_double change prev_tor = Inr pct
     \<and> float_sign pct = (if change > 0 then 1 else if change < 0 then - 1 else 0)"
proof -
  consider (pos) "0 < change" | (neg) "change < 0" | (zero) "change = 0" by linarith
  then show ?thesis
  proof cases
    case pos
    with assms(3) have "change < 2 ^ 1023" by simp
    from truediv_double_pos [OF pos this assms(1,2)] obtain q where
      "truediv_double change prev_tor = Inr q" "2 powr (- 1074) \<le> q" by blast
    with pos assms(1) show ?thesis
      by (simp add: percentage_change_double_def float_mul_100_sign(1))
  next
    case neg
    with assms(3) have "- (2 ^ 1023) < change" by simp
    from truediv_double_neg [OF neg this assms(1,2)] obtain q where
      "truediv_double change prev_tor = Inr q" "q \<le> - (2 powr (- 1074))" by blast
    with neg assms(1) show ?thesis
      by (simp add: percentage_change_double_def float_mul_100_sign(2))
  next
    case zero
    with assms(1) show ?thesis
      by (simp add: percentage_change_double_def truediv_double_zero float_mul_100_sign(3))
  qed
qed

lemma no_zero_division:
  "percentage_change_double change prev_tor \<noteq> Inl ZeroDivisionError"
  "tor_percentage_double tor_count total_count \<noteq> Inl ZeroDivisionError"
  "active_ratio_double active_count total_count \<noteq> Inl ZeroDivisionError"
  by (simp_all add: percentage_change_double_def tor_percentage_double_def
      active_ratio_double_def truediv_double_def Let_def)

lemma zero_denominator_double:
  "percentage_change_double change 0 = Inr (Finite 0)"
  "tor_percentage_double tor_count 0 = Inr (Finite 0)"
  "active_ratio_double active_count 0 = Inr 0"
  by (simp_all add: percentage_change_double_def tor_percentage_double_def
      active_ratio_double_def)

lemma percentage_change_double_underflow:
  assumes "2 ^ 1075 < b"
  shows "percentage_change_double 1 b = Inr (Finite 0)"
proof -
  have "(0::int) < 2 ^ 1075" by simp
  with assms have pos: "0 < b" by linarith
  from assms have "real_of_int (2 ^ 1075) < real_of_int b" by (simp only: of_int_less_iff)
  then have "2 ^ 1075 < real_of_int b" by simp
  then have "1 / real_of_int b < 1 / 2 ^ 1075" by (intro divide_strict_left_mono) simp_all
  moreover have "0 < 1 / real_of_int b" using pos by simp
  ultimately have "round_to_double (1 / real_of_int b) = 0" by (intro round_to_double_underflow)
  with pos show ?thesis
    by (simp add: percentage_change_double_def truediv_double_def float_mul_def
        round_to_double_zero)
qed

subsection \<open>The model against three runs of the interpreter\<close>

text \<open>
  \<^verbatim>\<open>(60 / 1000) * 100\<close> is \<^verbatim>\<open>6.0\<close> (scenario A), \<^verbatim>\<open>(2 * 10**308) / 1\<close> raises
  \<^verbatim>\<open>OverflowError\<close>, and \<^verbatim>\<open>(50000000000000001 / 10**18) * 100\<close> is \<^verbatim>\<open>5.0\<close> although the
  exact percentage is above 5.
\<close>

lemma double_scenario_a_quotient: "truediv_double 60 1000 = Inr (8646911284551352 / 2 ^ 57)"
proof -
  have "round_to_double (60 / 1000) =
     real_of_int (round_half_even (60 / 1000 / 2 powr real_of_int (- 5 - 52)))
       * 2 powr real_of_int (- 5 - 52)"
    by (rule round_to_double_in_binade) (simp_all add: powr_minus inverse_eq_divide)
  also have "\<dots> = 8646911284551352 / 2 ^ 57"
    by (simp add: powr_minus inverse_eq_divide round_half_even_def)
  finally show ?thesis by (simp add: truediv_double_def)
qed

lemma double_scenario_a_percentage: "percentage_change_double 60 1000 = Inr (Finite 6)"
proof -
  have "round_to_double (8646911284551352 / 2 ^ 57 * 100) =
     real_of_int (round_half_even (8646911284551352 / 2 ^ 57 * 100 / 2 powr real_of_int (2 - 52)))
       * 2 powr real_of_int (2 - 52)"
    by (rule round_to_double_in_binade) (simp_all add: powr_minus inverse_eq_divide)
  also have "\<dots> = 6"
    by (simp add: powr_minus inverse_eq_divide round_half_even_def)
  finally show ?thesis
    by (simp add: percentage_change_double_def double_scenario_a_quotient float_mul_def)
qed

lemma double_overflow_example: "percentage_change_double (2 * 10 ^ 308) 1 = Inl OverflowError"
proof -
  have "round_to_double (2 * 10 ^ 308) =
     real_of_int (round_half_even (2 * 10 ^ 308 / 2 powr real_of_int (1024 - 52)))
       * 2 powr real_of_int (1024 - 52)"
    by (rule round_to_double_in_binade) simp_all
  moreover have "2 ^ 1024 \<le> real_of_int (round_half_even (2 * 10 ^ 308 / 2 powr real_of_int (1024 - 52)))
       * 2 powr real_of_int (1024 - 52)"
    by (simp add: round_half_even_def)
  ultimately have "2 ^ 1024 \<le> \<bar>round_to_double (2 * 10 ^ 308)\<bar>" by linarith
  then show ?thesis
    by (simp add: percentage_change_double_def truediv_double_def)
qed

lemma double_rounding_quotient:
  "truediv_double 50000000000000001 1000000000000000000 = Inr (7205759403792794 / 2 ^ 57)"
proof -
  have "round_to_double (50000000000000001 / 1000000000000000000) =
     real_of_int (round_half_even (50000000000000001 / 1000000000000000000 / 2 powr real_of_int (- 5 - 52)))
       * 2 powr real_of_int (- 5 - 52)"
    by (rule round_to_double_in_binade) (simp_all add: powr_minus inverse_eq_divide)
  also have "\<dots> = 7205759403792794 / 2 ^ 57"
    by (simp add: powr_minus inverse_eq_divide round_half_even_def)
  finally show ?thesis by (simp add: truediv_double_def)
qed

lemma double_rounding_example:
  "percentage_change_double 50000000000000001 1000000000000000000 = Inr (Finite 5)"
proof -
  have "round_to_double (7205759403792794 / 2 ^ 57 * 100) =
     real_of_int (round_half_even (7205759403792794 / 2 ^ 57 * 100 / 2 powr real_of_int (2 - 52)))
       * 2 powr real_of_int (2 - 52)"
    by (rule round_to_double_in_binade) (simp_all add: powr_minus inverse_eq_divide)
  also have "\<dots> = 5"
    by (simp add: powr_minus inverse_eq_divide round_half_even_def)
  finally show ?thesis
    by (simp add: percentage_change_double_def double_rounding_quotient float_mul_def)
qed


section \<open>Zero denominators\<close>

text \<open>
  Claim C8. Zero denominators evaluate to \<open>0\<close> and never raise: a payload with
  \<^verbatim>\<open>total_nodes = 0\<close> is fetched into a snapshot with \<open>tor_percentage = 0\<close> and
  \<open>active_ratio = 0\<close> (the fetch does not fall into its exception handler), and a
  populated window with \<open>previous.tor_nodes = 0\<close> has \<open>percentage_change = 0\<close>. In double
  arithmetic too the three guarded quotients are \<open>0\<close> on a zero denominator, and on no
  input do they raise \<^verbatim>\<open>ZeroDivisionError\<close>. (An \<^verbatim>\<open>OverflowError\<close> of the division
  remains possible on a quotient of magnitude \<open>2 ^ 1024\<close> or more, which is not a
  zero-denominator case.)
\<close>

theorem zero_denominators_evaluate_to_zero:
  "(payload_total_nodes data = 0 \<longrightarrow>
      (\<exists>snap st'. fetch_node_data (Payload data) now st = (Inr (Some snap), st')
         \<and> total_nodes snap = 0 \<and> tor_percentage snap = 0 \<and> active_ratio snap = 0))
   \<and> (\<forall>cur prev. current_data self = Some cur \<and> previous_data self = Some prev
         \<and> tor_nodes prev = 0 \<longrightarrow>
      (\<exists>r. calculate_high_confidence_signal self = Inr r \<and> percentage_change r = 0))
   \<and> percentage_change_double change 0 = Inr (Finite 0)
   \<and> tor_percentage_double tor_count 0 = Inr (Finite 0)
   \<and> active_ratio_double active_count 0 = Inr 0
   \<and> percentage_change_double change prev_tor \<noteq> Inl ZeroDivisionError
   \<and> tor_percentage_double tor_count total_count \<noteq> Inl ZeroDivisionError
   \<and> active_ratio_double active_count total_count \<noteq> Inl ZeroDivisionError"
proof -
  have fetched: "payload_total_nodes data = 0 \<longrightarrow>
      (\<exists>snap st'. fetch_node_data (Payload data) now st = (Inr (Some snap), st')
         \<and> total_nodes snap = 0 \<and> tor_percentage snap = 0 \<and> active_ratio snap = 0)"
  proof
    assume zero: "payload_total_nodes data = 0"
    obtain self w where st: "st = (self, w)" by (cases st)
    show "\<exists>snap st'. fetch_node_data (Payload data) now st = (Inr (Some snap), st')
         \<and> total_nodes snap = 0 \<and> tor_percentage snap = 0 \<and> active_ratio snap = 0"
      unfolding st fetch_payload using zero by simp
  qed
  have window: "\<forall>cur prev. current_data self = Some cur \<and> previous_data self = Some prev
         \<and> tor_nodes prev = 0 \<longrightarrow>
      (\<exists>r. calculate_high_confidence_signal self = Inr r \<and> percentage_change r = 0)"
  proof (intro allI impI)
    fix cur prev
    assume h: "current_data self = Some cur \<and> previous_data self = Some prev
        \<and> tor_nodes prev = 0"
    from signal_of_pair_returns [of cur prev] obtain r where
      r: "signal_of_pair cur prev = Inr r"
      and pc: "percentage_change r = pair_percentage cur prev"
      by blast
    have "calculate_high_confidence_signal self = Inr r"
      using h r by (simp add: populated_signal)
    moreover have "percentage_change r = 0"
      using h pc by (simp add: pair_percentage_def percentage_of_def)
    ultimately show "\<exists>r. calculate_high_confidence_signal self = Inr r \<and> percentage_change r = 0"
      by blast
  qed
  show ?thesis
    by (intro conjI fetched window zero_denominator_double no_zero_division)
qed

text \<open>
  A payload that reports no node at all, and a window whose previous snapshot has no Tor
  node.
\<close>

theorem zero_denominators_evaluate_to_zero_witness:
  "payload_total_nodes payload_zero = 0
   \<and> (\<exists>snap st'. fetch_node_data (Payload payload_zero) ''2024-05-01T12:00:00''
          (scenario_c, world_a) = (Inr (Some snap), st')
        \<and> total_nodes snap = 0 \<and> tor_percentage snap = 0 \<and> active_ratio snap = 0)
   \<and> tor_nodes snapshot_no_tor = 0
   \<and> (\<exists>r. calculate_high_confidence_signal scenario_no_tor = Inr r \<and> percentage_change r = 0)
   \<and> percentage_change_double 1060 0 = Inr (Finite 0)
   \<and> percentage_change_double 60 1000 \<noteq> Inl ZeroDivisionError"
proof -
  have z: "payload_total_nodes payload_zero = 0" by (simp add: payload_zero_def)
  have w: "current_data scenario_no_tor = Some snapshot_cur_a
      \<and> previous_data scenario_no_tor = Some snapshot_no_tor \<and> tor_nodes snapshot_no_tor = 0"
    by (simp add: scenario_no_tor_def snapshot_no_tor_def)
  note inst = zero_denominators_evaluate_to_zero
    [of payload_zero "''2024-05-01T12:00:00''" "(scenario_c, world_a)" scenario_no_tor
      1060 0 0 1000 0]
  note inst' = zero_denominators_evaluate_to_zero
    [of payload_zero "''2024-05-01T12:00:00''" "(scenario_c, world_a)" scenario_no_tor
      60 0 0 1000 0]
  from inst have a: "payload_total_nodes payload_zero = 0 \<longrightarrow>
      (\<exists>snap st'. fetch_node_data (Payload payload_zero) ''2024-05-01T12:00:00''
          (scenario_c, world_a) = (Inr (Some snap), st')
        \<and> total_nodes snap = 0 \<and> tor_percentage snap = 0 \<and> active_ratio snap = 0)"
    by (rule conjunct1)
  from inst have b: "\<forall>cur prev. current_data scenario_no_tor = Some cur
         \<and> previous_data scenario_no_tor = Some prev \<and> tor_nodes prev = 0 \<longrightarrow>
      (\<exists>r. calculate_high_confidence_signal scenario_no_tor = Inr r \<and> percentage_change r = 0)"
    by (rule conjunct1 [OF conjunct2])
  from inst have c: "percentage_change_double 1060 0 = Inr (Finite 0)"
    by (rule conjunct1 [OF conjunct2 [OF conjunct2]])
  from inst' have d: "percentage_change_double 60 1000 \<noteq> Inl ZeroDivisionError"
    by (rule conjunct1 [OF conjunct2 [OF conjunct2 [OF conjunct2 [OF conjunct2 [OF conjunct2]]]]])
  from w have t: "tor_nodes snapshot_no_tor = 0" by simp
  show ?thesis
    by (intro conjI z mp [OF a z] t b [rule_format, OF w] c d)
qed


section \<open>Loading\<close>

text \<open>
  Claim C9. \<^verbatim>\<open>load_node_data\<close> never propagates a failure: when the file is absent,
  unreadable or malformed (not JSON, or JSON that is not an object) the window is empty,
  and when the file holds a JSON object the two slots are its \<^verbatim>\<open>current_data\<close> and
  \<^verbatim>\<open>previous_data\<close>. The world is left as it was.
\<close>

theorem load_node_data_never_fails:
  "\<exists>self'. load_node_data (self, w) = (Inr (), (self', w))
     \<and> (data_file w \<in> {File_Absent, File_Unreadable, File_Malformed, File_Not_Object}
          \<longrightarrow> self' = empty_window)
     \<and> (\<forall>doc. data_file w = File_Document doc \<longrightarrow>
          current_data self' = stored_current_data doc
          \<and> previous_data self' = stored_previous_data doc)"
  by (cases "data_file w")
     (simp_all add: load_node_data_def load_body_def try_except_def empty_window_def)

text \<open>
  A malformed file gives the empty window; the stored document of scenario A gives
  scenario A back.
\<close>

theorem load_node_data_never_fails_witness:
  "data_file world_broken \<in> {File_Absent, File_Unreadable, File_Malformed, File_Not_Object}
   \<and> load_node_data (scenario_a, world_broken) = (Inr (), (empty_window, world_broken))
   \<and> data_file world_a = File_Document document_a
   \<and> load_node_data (empty_window, world_a) = (Inr (), (scenario_a, world_a))"
proof -
  have m: "data_file world_broken \<in> {File_Absent, File_Unreadable, File_Malformed, File_Not_Object}"
    by (simp add: world_broken_def)
  have d: "data_file world_a = File_Document document_a" by (simp add: world_a_def)
  from load_node_data_never_fails [of scenario_a world_broken] obtain s1 where
    l1: "load_node_data (scenario_a, world_broken) = (Inr (), (s1, world_broken))"
    and e1: "data_file world_broken \<in> {File_Absent, File_Unreadable, File_Malformed, File_Not_Object}
          \<longrightarrow> s1 = empty_window"
    by (elim exE conjE) (rule that; assumption)
  from load_node_data_never_fails [of empty_window world_a] obtain s2 where
    l2: "load_node_data (empty_window, world_a) = (Inr (), (s2, world_a))"
    and e2: "\<forall>doc. data_file world_a = File_Document doc \<longrightarrow>
          current_data s2 = stored_current_data doc
          \<and> previous_data s2 = stored_previous_data doc"
    by (elim exE conjE) (rule that; assumption)
  from mp [OF e1 m] l1 have r1: "load_node_data (scenario_a, world_broken)
      = (Inr (), (empty_window, world_broken))"
    by simp
  from e2 [rule_format, OF d] have "s2 = scenario_a"
    by (simp add: document_a_def scenario_a_def)
  with l2 have r2: "load_node_data (empty_window, world_a) = (Inr (), (scenario_a, world_a))"
    by simp
  show ?thesis by (intro conjI m r1 d r2)
qed


section \<open>The sign of the percentage change\<close>

text \<open>
  Claim C10 does not hold as stated. Line 117 divides in double arithmetic, and a
  quotient below half of the smallest positive double rounds to zero: with
  \<open>10 ^ 330\<close> Tor nodes before and one more now, \<open>previous.tor_nodes > 0\<close> and
  \<open>tor_change = 1\<close>, but \<open>percentage_change\<close> is \<open>0.0\<close>.
\<close>

theorem percentage_underflows_to_zero:
  "0 < tor_nodes snapshot_huge_prev
   \<and> pair_change snapshot_huge_cur snapshot_huge_prev = 1
   \<and> percentage_change_double (pair_change snapshot_huge_cur snapshot_huge_prev)
        (tor_nodes snapshot_huge_prev) = Inr (Finite 0)
   \<and> float_sign (Finite 0) = 0"
proof -
  have prev: "tor_nodes snapshot_huge_prev = 10 ^ 330"
    by (simp only: snapshot_huge_prev_def snapshot.select_convs)
  have cur: "tor_nodes snapshot_huge_cur = 10 ^ 330 + 1"
    by (simp only: snapshot_huge_cur_def snapshot.select_convs)
  have ch: "pair_change snapshot_huge_cur snapshot_huge_prev = 1"
    by (simp only: pair_change_def prev cur add_diff_cancel_left')
  have big: "(2::int) ^ 1075 < 10 ^ 330" by simp
  have "percentage_change_double 1 (10 ^ 330) = Inr (Finite 0)"
    using big by (rule percentage_change_double_underflow)
  then have pc: "percentage_change_double (pair_change snapshot_huge_cur snapshot_huge_prev)
        (tor_nodes snapshot_huge_prev) = Inr (Finite 0)"
    by (simp only: prev ch)
  have "(0::int) < 2 ^ 1075" by simp
  then have "(0::int) < 10 ^ 330" using big by (rule less_trans)
  then have pos: "0 < tor_nodes snapshot_huge_prev" by (simp only: prev)
  have sign: "float_sign (Finite 0) = 0" by simp
  show ?thesis by (intro conjI pos ch pc sign)
qed

text \<open>
  Claim C10, amended. For the two snapshots of a populated window with
  \<open>0 < previous.tor_nodes \<le> 2 ^ 1074\<close> and \<open>|tor_change| < 2 ^ 1023\<close>, line 117 returns a
  \<open>percentage_change\<close> that is positive, negative or zero exactly when \<open>tor_change\<close> is;
  so within these magnitudes the paired conditions of rules 1 to 4 never disagree in
  direction: a change above 50 or 25 comes with a positive percentage, a change below -50
  or -25 with a negative one. When \<open>previous.tor_nodes = 0\<close> the percentage is \<open>0\<close>
  whatever the change.
\<close>

theorem percentage_sign_agrees_in_double_range:
  "(0 < tor_nodes prev \<and> tor_nodes prev \<le> 2 ^ 1074 \<and> \<bar>pair_change cur prev\<bar> < 2 ^ 1023 \<longrightarrow>
      (\<exists>pct. percentage_change_double (pair_change cur prev) (tor_nodes prev) = Inr pct
         \<and> (float_sign pct = 1) = (pair_change cur prev > 0)
         \<and> (float_sign pct = - 1) = (pair_change cur prev < 0)
         \<and> (float_sign pct = 0) = (pair_change cur prev = 0)
         \<and> (pair_change cur prev > 50 \<longrightarrow> float_sign pct = 1)
         \<and> (pair_change cur prev < - 50 \<longrightarrow> float_sign pct = - 1)
         \<and> (pair_change cur prev > 25 \<longrightarrow> float_sign pct = 1)
         \<and> (pair_change cur prev < - 25 \<longrightarrow> float_sign pct = - 1)))
   \<and> (tor_nodes prev = 0 \<longrightarrow>
        percentage_change_double (pair_change cur prev) (tor_nodes prev) = Inr (Finite 0))"
proof (intro conjI impI)
  assume h: "0 < tor_nodes prev \<and> tor_nodes prev \<le> 2 ^ 1074
      \<and> \<bar>pair_change cur prev\<bar> < 2 ^ 1023"
  note h1 = conjunct1 [OF h] and h2 = conjunct1 [OF conjunct2 [OF h]]
    and h3 = conjunct2 [OF conjunct2 [OF h]]
  from percentage_change_double_sign [OF h1 h2 h3] obtain pct where
    ret: "percentage_change_double (pair_change cur prev) (tor_nodes prev) = Inr pct"
    and sign: "float_sign pct =
       (if pair_change cur prev > 0 then 1 else if pair_change cur prev < 0 then - 1 else 0)"
    by blast
  have "(float_sign pct = 1) = (pair_change cur prev > 0)
         \<and> (float_sign pct = - 1) = (pair_change cur prev < 0)
         \<and> (float_sign pct = 0) = (pair_change cur prev = 0)
         \<and> (pair_change cur prev > 50 \<longrightarrow> float_sign pct = 1)
         \<and> (pair_change cur prev < - 50 \<longrightarrow> float_sign pct = - 1)
         \<and> (pair_change cur prev > 25 \<longrightarrow> float_sign pct = 1)
         \<and> (pair_change cur prev < - 25 \<longrightarrow> float_sign pct = - 1)"
    unfolding sign by auto
  with ret show "\<exists>pct. percentage_change_double (pair_change cur prev) (tor_nodes prev) = Inr pct
         \<and> (float_sign pct = 1) = (pair_change cur prev > 0)
         \<and> (float_sign pct = - 1) = (pair_change cur prev < 0)
         \<and> (float_sign pct = 0) = (pair_change cur prev = 0)
         \<and> (pair_change cur prev > 50 \<longrightarrow> float_sign pct = 1)
         \<and> (pair_change cur prev < - 50 \<longrightarrow> float_sign pct = - 1)
         \<and> (pair_change cur prev > 25 \<longrightarrow> float_sign pct = 1)
         \<and> (pair_change cur prev < - 25 \<longrightarrow> float_sign pct = - 1)"
    by blast
next
  assume "tor_nodes prev = 0"
  then show "percentage_change_double (pair_change cur prev) (tor_nodes prev) = Inr (Finite 0)"
    by (simp add: zero_denominator_double)
qed

text \<open>
  Scenario A: the change is +60 on 1000 nodes, and the percentage is the positive double
  \<open>6.0\<close>.
\<close>

theorem percentage_sign_agrees_in_double_range_witness:
  "0 < tor_nodes snapshot_prev_a \<and> tor_nodes snapshot_prev_a \<le> 2 ^ 1074
   \<and> \<bar>pair_change snapshot_cur_a snapshot_prev_a\<bar> < 2 ^ 1023
   \<and> pair_change snapshot_cur_a snapshot_prev_a = 60
   \<and> percentage_change_double (pair_change snapshot_cur_a snapshot_prev_a)
        (tor_nodes snapshot_prev_a) = Inr (Finite 6)
   \<and> float_sign (Finite 6) = 1"
proof -
  have prev: "tor_nodes snapshot_prev_a = 1000" by (simp add: snapshot_prev_a_def)
  have ch: "pair_change snapshot_cur_a snapshot_prev_a = 60"
    by (simp add: pair_change_def snapshot_cur_a_def snapshot_prev_a_def)
  have h: "0 < tor_nodes snapshot_prev_a \<and> tor_nodes snapshot_prev_a \<le> 2 ^ 1074
      \<and> \<bar>pair_change snapshot_cur_a snapshot_prev_a\<bar> < 2 ^ 1023"
    by (simp add: prev ch)
  note inst = percentage_sign_agrees_in_double_range [of snapshot_prev_a snapshot_cur_a]
  from mp [OF conjunct1 [OF inst] h] obtain pct where
    ret: "percentage_change_double (pair_change snapshot_cur_a snapshot_prev_a)
        (tor_nodes snapshot_prev_a) = Inr pct"
    and pos: "(float_sign pct = 1) = (pair_change snapshot_cur_a snapshot_prev_a > 0)"
    by (elim exE conjE) (rule that; assumption)
  have six: "percentage_change_double (pair_change snapshot_cur_a snapshot_prev_a)
        (tor_nodes snapshot_prev_a) = Inr (Finite 6)"
    by (simp only: prev ch double_scenario_a_percentage)
  with ret have "pct = Finite 6" by simp
  with pos ch have sign: "float_sign (Finite 6) = 1" by simp
  note h1 = conjunct1 [OF h] and h2 = conjunct1 [OF conjunct2 [OF h]]
    and h3 = conjunct2 [OF conjunct2 [OF h]]
  show ?thesis by (intro conjI h1 h2 h3 ch six sign)
qed

end
